theory Spec2Isabelle
  imports Complex_Main
begin

section \<open>JavaScript numbers and their text forms\<close>

text \<open>
  The store writes metadata as text and reads it back: \<^verbatim>\<open>value.toString()\<close> on the way
  in, \<^verbatim>\<open>parseInt(response)\<close> on the way out. The numbers met there are the integers,
  \<^verbatim>\<open>NaN\<close> and the infinities (what \<^verbatim>\<open>parseInt\<close> can return; \<^verbatim>\<open>-0\<close> is \<open>Fin 0\<close>).
  \<^verbatim>\<open>Number.prototype.toString\<close> prints an integer below \<open>10\<^sup>2\<^sup>1\<close> in plain decimal digits,
  which is what \<open>number_toString\<close> does.
\<close>

datatype jsnumber = NaN | Fin int | Infinity | NegativeInfinity

definition digit_char :: "nat \<Rightarrow> char" where
  "digit_char d = ''0123456789'' ! d"

function nat_toString :: "nat \<Rightarrow> string" where
  "nat_toString n =
     (if n < 10 then [digit_char n] else nat_toString (n div 10) @ [digit_char (n mod 10)])"
  by pat_completeness auto
termination
  by (relation "measure (\<lambda>n. n)") auto

declare nat_toString.simps [simp del]

definition int_toString :: "int \<Rightarrow> string" where
  "int_toString i = (if i < 0 then ''-'' @ nat_toString (nat (- i)) else nat_toString (nat i))"

fun number_toString :: "jsnumber \<Rightarrow> string" where
  "number_toString NaN = ''NaN''"
| "number_toString (Fin i) = int_toString i"
| "number_toString Infinity = ''Infinity''"
| "number_toString NegativeInfinity = ''-Infinity''"

definition boolean_toString :: "bool \<Rightarrow> string" where
  "boolean_toString b = (if b then ''true'' else ''false'')"

text \<open>
  A string is its UTF-8 bytes. The white space \<^verbatim>\<open>parseInt\<close> skips is the \<^verbatim>\<open>WhiteSpace\<close> and
  \<^verbatim>\<open>LineTerminator\<close> of ECMAScript: tab, line feed, vertical tab, form feed, carriage
  return, space, U+00A0, U+1680, U+2000 to U+200A, U+2028, U+2029, U+202F, U+205F, U+3000
  and U+FEFF, each in its encoding.
\<close>

definition white_space :: "string list" where
  "white_space =
     [[CHR 0x09], [CHR 0x0A], [CHR 0x0B], [CHR 0x0C], [CHR 0x0D], [CHR 0x20],
      [CHR 0xC2, CHR 0xA0],
      [CHR 0xE1, CHR 0x9A, CHR 0x80],
      [CHR 0xE2, CHR 0x80, CHR 0x80], [CHR 0xE2, CHR 0x80, CHR 0x81],
      [CHR 0xE2, CHR 0x80, CHR 0x82], [CHR 0xE2, CHR 0x80, CHR 0x83],
      [CHR 0xE2, CHR 0x80, CHR 0x84], [CHR 0xE2, CHR 0x80, CHR 0x85],
      [CHR 0xE2, CHR 0x80, CHR 0x86], [CHR 0xE2, CHR 0x80, CHR 0x87],
      [CHR 0xE2, CHR 0x80, CHR 0x88], [CHR 0xE2, CHR 0x80, CHR 0x89],
      [CHR 0xE2, CHR 0x80, CHR 0x8A],
      [CHR 0xE2, CHR 0x80, CHR 0xA8], [CHR 0xE2, CHR 0x80, CHR 0xA9],
      [CHR 0xE2, CHR 0x80, CHR 0xAF],
      [CHR 0xE2, CHR 0x81, CHR 0x9F],
      [CHR 0xE3, CHR 0x80, CHR 0x80],
      [CHR 0xEF, CHR 0xBB, CHR 0xBF]]"

text \<open>The white space character a string begins with, if it begins with one.\<close>

definition leading_white :: "string \<Rightarrow> string option" where
  "leading_white s = find (\<lambda>w. take (length w) s = w) white_space"

function strip_white :: "string \<Rightarrow> string" where
  "strip_white s =
     (case leading_white s of
        Some w \<Rightarrow> strip_white (drop (length w) s)
      | None \<Rightarrow> s)"
  by pat_completeness auto
termination
proof (relation "measure length")
  show "wf (measure length)"
    by simp
next
  fix s w :: string
  assume "leading_white s = Some w"
  then have w: "w \<in> set white_space" and t: "take (length w) s = w"
    unfolding leading_white_def by (auto simp add: find_Some_iff in_set_conv_nth)
  from w have "0 < length w"
    by (auto simp add: white_space_def)
  moreover from arg_cong [where f = length, OF t] have "length w \<le> length s"
    by simp
  ultimately have "length s - length w < length s"
    by linarith
  then show "(drop (length w) s, s) \<in> measure length"
    by simp
qed

declare strip_white.simps [simp del]

definition digit_value :: "char \<Rightarrow> nat option" where
  "digit_value c =
     (let n = (of_char c :: nat)
      in if 48 \<le> n \<and> n \<le> 57 then Some (n - 48)
         else if 97 \<le> n \<and> n \<le> 122 then Some (n - 87)
         else if 65 \<le> n \<and> n \<le> 90 then Some (n - 55)
         else None)"

definition radix_digit :: "nat \<Rightarrow> char \<Rightarrow> bool" where
  "radix_digit R c = (case digit_value c of Some d \<Rightarrow> d < R | None \<Rightarrow> False)"

definition digits_value :: "nat \<Rightarrow> string \<Rightarrow> nat" where
  "digits_value R cs =
     fold (\<lambda>c acc. case digit_value c of Some d \<Rightarrow> acc * R + d | None \<Rightarrow> acc) cs 0"

text \<open>
  The number of a natural number: the nearest double, a tie going to the even significand
  of 53 bits, and infinity (\<open>None\<close>) from \<open>2\<^sup>1\<^sup>0\<^sup>2\<^sup>4\<close> on. Below \<open>2\<^sup>5\<^sup>3\<close> it is the number
  itself.
\<close>

function bit_length :: "nat \<Rightarrow> nat" where
  "bit_length n = (if n = 0 then 0 else Suc (bit_length (n div 2)))"
  by pat_completeness auto
termination
  by (relation "measure (\<lambda>n. n)") auto

declare bit_length.simps [simp del]

definition nearest_double :: "nat \<Rightarrow> nat option" where
  "nearest_double n =
     (let e = bit_length n - 53;
          q = n div 2 ^ e;
          r = n mod 2 ^ e;
          m = (if 2 ^ e < 2 * r \<or> (2 * r = 2 ^ e \<and> odd q) then q + 1 else q)
      in if 1024 < bit_length (m * 2 ^ e) then None else Some (m * 2 ^ e))"

text \<open>
  \<^verbatim>\<open>parseInt(string)\<close> with no radix, after ECMAScript: leading white space is dropped, one
  sign is read, a \<^verbatim>\<open>0x\<close>/\<^verbatim>\<open>0X\<close> prefix selects radix 16 (radix 10 otherwise), and the longest
  run of digits of that radix is the value, as a number. No digit at all gives \<^verbatim>\<open>NaN\<close>;
  nothing is thrown.
\<close>

definition parseInt :: "string \<Rightarrow> jsnumber" where
  "parseInt s =
     (let s1 = strip_white s;
          neg = (s1 \<noteq> [] \<and> hd s1 = CHR ''-'');
          s2 = (if s1 \<noteq> [] \<and> (hd s1 = CHR ''+'' \<or> hd s1 = CHR ''-'') then tl s1 else s1);
          hex = (take 2 s2 = ''0x'' \<or> take 2 s2 = ''0X'');
          R = (if hex then 16 else 10);
          s3 = (if hex then drop 2 s2 else s2);
          z = takeWhile (radix_digit R) s3
      in if z = [] then NaN
         else (case nearest_double (digits_value R z) of
                 Some n \<Rightarrow> Fin ((if neg then - 1 else 1) * int n)
               | None \<Rightarrow> if neg then NegativeInfinity else Infinity))"

section \<open>The audit record\<close>

text \<open>
  \<^verbatim>\<open>Partial<WasteAuditData>\<close> of \<^verbatim>\<open>types/waste.ts\<close>: every property may be absent. The six
  sections have a type parameter each. The store never looks inside a section (it passes it
  to \<^verbatim>\<open>JSON.stringify\<close> and takes what \<^verbatim>\<open>JSON.parse\<close> returns), so it works on the instance
  where all six are one type \<open>'j\<close> of JSON values; the scoring engine reads the sections'
  fields and works on the instance with the section interfaces. The property \<^verbatim>\<open>id\<close> is
  \<open>data_id\<close> here.
\<close>

record ('a, 'b, 'c, 'd, 'e, 'f) WasteAuditData =
  data_id :: "int option"
  auditId :: "int option"
  facilityInfrastructure :: "'a option"
  wasteStreamsAssessment :: "'b option"
  specialWasteManagement :: "'c option"
  organicWasteComposting :: "'d option"
  wastePreventionMeasures :: "'e option"
  behavioralTraining :: "'f option"
  completedSections :: "jsnumber option"
  isQuickMode :: "bool option"
  lastSaved :: "string option"
  syncStatus :: "string option"

type_synonym 'j StoredAudit = "('j, 'j, 'j, 'j, 'j, 'j) WasteAuditData"

definition no_data :: "('a, 'b, 'c, 'd, 'e, 'f) WasteAuditData" where
  "no_data =
     \<lparr>data_id = None, auditId = None, facilityInfrastructure = None,
      wasteStreamsAssessment = None, specialWasteManagement = None,
      organicWasteComposting = None, wastePreventionMeasures = None,
      behavioralTraining = None, completedSections = None, isQuickMode = None,
      lastSaved = None, syncStatus = None\<rparr>"

definition sections :: "string list" where
  "sections =
     [''facilityInfrastructure'', ''wasteStreamsAssessment'', ''specialWasteManagement'',
      ''organicWasteComposting'', ''wastePreventionMeasures'', ''behavioralTraining'']"

text \<open>\<^verbatim>\<open>data[section]\<close>, for a section name.\<close>

definition section_of :: "'j StoredAudit \<Rightarrow> string \<Rightarrow> 'j option" where
  "section_of data section =
     (if section = ''facilityInfrastructure'' then facilityInfrastructure data
      else if section = ''wasteStreamsAssessment'' then wasteStreamsAssessment data
      else if section = ''specialWasteManagement'' then specialWasteManagement data
      else if section = ''organicWasteComposting'' then organicWasteComposting data
      else if section = ''wastePreventionMeasures'' then wastePreventionMeasures data
      else if section = ''behavioralTraining'' then behavioralTraining data
      else None)"

text \<open>\<^verbatim>\<open>data[section] = value\<close>, for a section name.\<close>

definition set_section :: "string \<Rightarrow> 'j \<Rightarrow> 'j StoredAudit \<Rightarrow> 'j StoredAudit" where
  "set_section section v data =
     (if section = ''facilityInfrastructure'' then data\<lparr>facilityInfrastructure := Some v\<rparr>
      else if section = ''wasteStreamsAssessment'' then data\<lparr>wasteStreamsAssessment := Some v\<rparr>
      else if section = ''specialWasteManagement'' then data\<lparr>specialWasteManagement := Some v\<rparr>
      else if section = ''organicWasteComposting'' then data\<lparr>organicWasteComposting := Some v\<rparr>
      else if section = ''wastePreventionMeasures'' then data\<lparr>wastePreventionMeasures := Some v\<rparr>
      else if section = ''behavioralTraining'' then data\<lparr>behavioralTraining := Some v\<rparr>
      else data)"

text \<open>
  The values a property of the record can hold, as \<^verbatim>\<open>typeof\<close> tells them apart: a section is
  an object, the rest are numbers, booleans and strings.
\<close>

datatype 'j jsvalue = Obj 'j | Num jsnumber | Bool bool | Str string

text \<open>\<^verbatim>\<open>updates[key]\<close>, for any key; \<open>None\<close> is \<^verbatim>\<open>undefined\<close>.\<close>

definition property :: "'j StoredAudit \<Rightarrow> string \<Rightarrow> 'j jsvalue option" where
  "property data key =
     (if key = ''id'' then map_option (\<lambda>i. Num (Fin i)) (data_id data)
      else if key = ''auditId'' then map_option (\<lambda>i. Num (Fin i)) (auditId data)
      else if key \<in> set sections then map_option Obj (section_of data key)
      else if key = ''completedSections'' then map_option Num (completedSections data)
      else if key = ''isQuickMode'' then map_option Bool (isQuickMode data)
      else if key = ''lastSaved'' then map_option Str (lastSaved data)
      else if key = ''syncStatus'' then map_option Str (syncStatus data)
      else None)"

section \<open>The database\<close>

text \<open>
  The tables \<^verbatim>\<open>audits\<close> (its ids) and \<^verbatim>\<open>waste_data\<close> (its rows, in rowid order) of
  \<^verbatim>\<open>initializeDatabase\<close>. \<^verbatim>\<open>waste_data\<close> has one key, the autoincremented \<^verbatim>\<open>id\<close>, and a
  foreign key from \<^verbatim>\<open>audit_id\<close> to \<^verbatim>\<open>audits(id)\<close>, enforced since the module sets
  \<^verbatim>\<open>foreign_keys = ON\<close>. There is no uniqueness constraint on \<^verbatim>\<open>(audit_id, item_key)\<close>.
\<close>

record row =
  row_id :: nat
  audit_id :: int
  item_key :: string
  response :: string
  notes_col :: string

record database =
  audits :: "int set"
  waste_data :: "row list"
  sqlite_sequence :: nat

datatype db_error = ForeignKeyViolation

fun message :: "db_error \<Rightarrow> string" where
  "message ForeignKeyViolation = ''FOREIGN KEY constraint failed''"

text \<open>AUTOINCREMENT: one more than the largest rowid the table has or ever had.\<close>

definition next_rowid :: "database \<Rightarrow> nat" where
  "next_rowid db = Suc (fold max (map row_id (waste_data db)) (sqlite_sequence db))"

text \<open>
  \<^verbatim>\<open>INSERT INTO waste_data (audit_id, item_key, response, notes) VALUES (?, ?, ?, ?)\<close>, and
  \<^verbatim>\<open>INSERT OR REPLACE\<close> when \<open>or_replace\<close> holds: the conflict clause removes the rows that
  collide with the new one on a uniqueness constraint, and the only one of the table is its
  primary key \<^verbatim>\<open>id\<close>. A missing parent audit fails the statement.
\<close>

definition insert_row ::
  "bool \<Rightarrow> int \<Rightarrow> string \<times> string \<times> string \<Rightarrow> database \<Rightarrow> db_error + database" where
  "insert_row or_replace a stmt db =
     (case stmt of (k, v, n) \<Rightarrow>
        let rid = next_rowid db;
            new = \<lparr>row_id = rid, audit_id = a, item_key = k, response = v, notes_col = n\<rparr>;
            kept = (if or_replace then filter (\<lambda>r. row_id r \<noteq> rid) (waste_data db)
                    else waste_data db)
        in if a \<in> audits db
           then Inr (db\<lparr>waste_data := kept @ [new], sqlite_sequence := rid\<rparr>)
           else Inl ForeignKeyViolation)"

text \<open>The statement run once per parameter tuple, in order; the first failure throws.\<close>

fun run_inserts ::
  "bool \<Rightarrow> int \<Rightarrow> (string \<times> string \<times> string) list \<Rightarrow> database \<Rightarrow> db_error + database" where
  "run_inserts or_replace a [] db = Inr db"
| "run_inserts or_replace a (stmt # stmts) db =
     (case insert_row or_replace a stmt db of
        Inl e \<Rightarrow> Inl e
      | Inr db' \<Rightarrow> run_inserts or_replace a stmts db')"

text \<open>\<^verbatim>\<open>DELETE FROM waste_data WHERE audit_id = ?\<close>\<close>

definition delete_waste_data :: "int \<Rightarrow> database \<Rightarrow> database" where
  "delete_waste_data a db = db\<lparr>waste_data := filter (\<lambda>r. audit_id r \<noteq> a) (waste_data db)\<rparr>"

text \<open>\<^verbatim>\<open>SELECT item_key, response FROM waste_data WHERE audit_id = ?\<close>, in rowid order.\<close>

definition select_waste_data :: "int \<Rightarrow> database \<Rightarrow> (string \<times> string) list" where
  "select_waste_data a db =
     map (\<lambda>r. (item_key r, response r)) (filter (\<lambda>r. audit_id r = a) (waste_data db))"

text \<open>
  \<^verbatim>\<open>db.transaction(fn)\<close>: the body's writes are kept when it returns and rolled back when
  it throws, the exception going on to the caller.
\<close>

definition transaction ::
  "(database \<Rightarrow> db_error + 'r \<times> database) \<Rightarrow> database \<Rightarrow> (db_error + 'r) \<times> database" where
  "transaction body db =
     (case body db of Inl e \<Rightarrow> (Inl e, db) | Inr (x, db') \<Rightarrow> (Inr x, db'))"

section \<open>The audit store\<close>

text \<open>
  \<^verbatim>\<open>JSON.stringify\<close> and \<^verbatim>\<open>JSON.parse\<close> belong to the platform; the operations take them as
  \<open>stringify\<close> and \<open>parse\<close> (\<open>None\<close> when \<^verbatim>\<open>JSON.parse\<close> throws). \<open>now\<close> is
  \<^verbatim>\<open>new Date().toISOString()\<close> at the call.
\<close>

record SaveWasteAuditResponse =
  success :: bool
  wasteAuditId :: "int option"
  validationErrors :: "string list option"

text \<open>
  The rows \<^verbatim>\<open>saveWasteAudit\<close> inserts, in the order of its statements. A section is an
  object, so \<^verbatim>\<open>if (data[section])\<close> asks whether it is there; \<^verbatim>\<open>if (data.syncStatus)\<close> also
  fails on the empty string.
\<close>

definition save_statements ::
  "('j \<Rightarrow> string) \<Rightarrow> string \<Rightarrow> 'j StoredAudit \<Rightarrow> (string \<times> string \<times> string) list" where
  "save_statements stringify now data =
     concat (map (\<lambda>section. case section_of data section of
                    Some v \<Rightarrow> [(section, stringify v, ''Waste audit section: '' @ section)]
                  | None \<Rightarrow> []) sections)
     @ (case completedSections data of
          Some n \<Rightarrow> [(''completedSections'', number_toString n, ''Number of completed sections'')]
        | None \<Rightarrow> [])
     @ (case isQuickMode data of
          Some b \<Rightarrow> [(''isQuickMode'', boolean_toString b, ''Quick mode flag'')]
        | None \<Rightarrow> [])
     @ (case syncStatus data of
          Some s \<Rightarrow> if s \<noteq> [] then [(''syncStatus'', s, ''Synchronization status'')] else []
        | None \<Rightarrow> [])
     @ [(''lastSaved'', now, ''Last saved timestamp'')]"

definition saveTransaction ::
  "('j \<Rightarrow> string) \<Rightarrow> string \<Rightarrow> int \<Rightarrow> 'j StoredAudit \<Rightarrow> database
     \<Rightarrow> db_error + SaveWasteAuditResponse \<times> database" where
  "saveTransaction stringify now aid data db =
     (case run_inserts False aid (save_statements stringify now data)
             (delete_waste_data aid db) of
        Inl e \<Rightarrow> Inl e
      | Inr db' \<Rightarrow>
          Inr (\<lparr>success = True, wasteAuditId = Some aid, validationErrors = None\<rparr>, db'))"

definition saveWasteAudit ::
  "('j \<Rightarrow> string) \<Rightarrow> string \<Rightarrow> int \<Rightarrow> 'j StoredAudit \<Rightarrow> database
     \<Rightarrow> SaveWasteAuditResponse \<times> database" where
  "saveWasteAudit stringify now aid wasteAuditData db =
     (case transaction (saveTransaction stringify now aid wasteAuditData) db of
        (Inr result, db') \<Rightarrow> (result, db')
      | (Inl e, db') \<Rightarrow>
          (\<lparr>success = False, wasteAuditId = None,
            validationErrors = Some [''Failed to save waste audit: '' @ message e]\<rparr>, db'))"

text \<open>One step of the \<^verbatim>\<open>records.forEach\<close> of \<^verbatim>\<open>getWasteAudit\<close>.\<close>

definition decode_record ::
  "(string \<Rightarrow> 'j option) \<Rightarrow> string \<times> string \<Rightarrow> 'j StoredAudit \<Rightarrow> 'j StoredAudit" where
  "decode_record parse rec wasteAuditData =
     (case rec of (key, text) \<Rightarrow>
        if key \<in> set sections then
          (case parse text of
             Some v \<Rightarrow> set_section key v wasteAuditData
           | None \<Rightarrow> wasteAuditData)
        else if key = ''completedSections'' then
          wasteAuditData\<lparr>completedSections := Some (parseInt text)\<rparr>
        else if key = ''isQuickMode'' then
          wasteAuditData\<lparr>isQuickMode := Some (text = ''true'')\<rparr>
        else if key = ''syncStatus'' then
          wasteAuditData\<lparr>syncStatus := Some text\<rparr>
        else if key = ''lastSaved'' then
          wasteAuditData\<lparr>lastSaved := Some text\<rparr>
        else wasteAuditData)"

definition getWasteAudit ::
  "(string \<Rightarrow> 'j option) \<Rightarrow> int \<Rightarrow> database \<Rightarrow> 'j StoredAudit option" where
  "getWasteAudit parse aid db =
     (let records = select_waste_data aid db
      in if length records = 0 then None
         else Some (fold (decode_record parse) records (no_data\<lparr>auditId := Some aid\<rparr>)))"

text \<open>
  \<^verbatim>\<open>value.toString()\<close>. The update calls it on values that are not objects only.
\<close>

fun toString :: "'j jsvalue \<Rightarrow> string" where
  "toString (Num n) = number_toString n"
| "toString (Bool b) = boolean_toString b"
| "toString (Str s) = s"
| "toString (Obj v) = ''[object Object]''"

text \<open>
  The rows \<^verbatim>\<open>updateWasteAudit\<close> writes. \<open>keys\<close> is \<^verbatim>\<open>Object.keys(updates)\<close>, the names of the
  properties of the object in the order they were put there, which a record does not keep.
\<close>

definition update_statements ::
  "('j \<Rightarrow> string) \<Rightarrow> string \<Rightarrow> string list \<Rightarrow> 'j StoredAudit
     \<Rightarrow> (string \<times> string \<times> string) list" where
  "update_statements stringify now keys updates =
     concat (map (\<lambda>key. case property updates key of
                    None \<Rightarrow> []
                  | Some (Obj v) \<Rightarrow> [(key, stringify v, ''Updated: '' @ key)]
                  | Some value \<Rightarrow> [(key, toString value, ''Updated: '' @ key)]) keys)
     @ [(''lastSaved'', now, ''Last updated timestamp'')]"

definition updateTransaction ::
  "('j \<Rightarrow> string) \<Rightarrow> string \<Rightarrow> string list \<Rightarrow> int \<Rightarrow> 'j StoredAudit \<Rightarrow> database
     \<Rightarrow> db_error + unit \<times> database" where
  "updateTransaction stringify now keys aid updates db =
     (case run_inserts True aid (update_statements stringify now keys updates) db of
        Inl e \<Rightarrow> Inl e
      | Inr db' \<Rightarrow> Inr ((), db'))"

definition updateWasteAudit ::
  "('j \<Rightarrow> string) \<Rightarrow> string \<Rightarrow> string list \<Rightarrow> int \<Rightarrow> 'j StoredAudit \<Rightarrow> database
     \<Rightarrow> bool \<times> database" where
  "updateWasteAudit stringify now keys aid updates db =
     (case transaction (updateTransaction stringify now keys aid updates) db of
        (Inr u, db') \<Rightarrow> (True, db')
      | (Inl e, db') \<Rightarrow> (False, db'))"

section \<open>JavaScript numbers in arithmetic\<close>

text \<open>
  A number of the scoring engine is an IEEE 754 double: a finite value, an infinity or
  \<^verbatim>\<open>NaN\<close>. The two zeros are one value here: the functions below never divide by zero, and
  \<^verbatim>\<open>===\<close> does not tell the zeros apart. Each operation gives the double nearest to the exact
  result, a tie going to the even significand.

  \<open>exponent a\<close> is the binary exponent of \<open>a > 0\<close> within the range of the format, from
  \<open>-1022\<close> (where the subnormal numbers begin) to \<open>1023\<close>; the significand has 53 bits.
\<close>

datatype double = Finite real | PlusInfinity | MinusInfinity | NotANumber

fun exponent_up :: "nat \<Rightarrow> real \<Rightarrow> int" where
  "exponent_up 0 a = 0"
| "exponent_up (Suc n) a = (if a < 2 then 0 else 1 + exponent_up n (a / 2))"

fun exponent_down :: "nat \<Rightarrow> real \<Rightarrow> int" where
  "exponent_down 0 a = 0"
| "exponent_down (Suc n) a = (if 1 \<le> a then 0 else exponent_down n (a * 2) - 1)"

definition exponent :: "real \<Rightarrow> int" where
  "exponent a = (if 1 \<le> a then exponent_up 1023 a else exponent_down 1022 a)"

definition pow2 :: "int \<Rightarrow> real" where
  "pow2 k = (if 0 \<le> k then 2 ^ nat k else 1 / 2 ^ nat (- k))"

definition round_half_even :: "real \<Rightarrow> int" where
  "round_half_even m =
     (if m - real_of_int \<lfloor>m\<rfloor> < 1 / 2 then \<lfloor>m\<rfloor>
      else if 1 / 2 < m - real_of_int \<lfloor>m\<rfloor> then \<lfloor>m\<rfloor> + 1
      else if even \<lfloor>m\<rfloor> then \<lfloor>m\<rfloor> else \<lfloor>m\<rfloor> + 1)"

definition significand :: "real \<Rightarrow> int" where
  "significand a = round_half_even (a / pow2 (exponent a - 52))"

text \<open>
  The double of a real number. A significand that rounds up to \<open>2\<^sup>5\<^sup>3\<close> at the top exponent
  is past the largest double: the result is an infinity.
\<close>

definition to_double :: "real \<Rightarrow> double" where
  "to_double x =
     (if x = 0 then Finite 0
      else if exponent \<bar>x\<bar> = 1023 \<and> 2 ^ 53 \<le> significand \<bar>x\<bar>
      then (if 0 < x then PlusInfinity else MinusInfinity)
      else Finite ((if 0 < x then 1 else - 1)
                   * (real_of_int (significand \<bar>x\<bar>) * pow2 (exponent \<bar>x\<bar> - 52))))"

fun dneg :: "double \<Rightarrow> double" where
  "dneg (Finite x) = Finite (- x)"
| "dneg PlusInfinity = MinusInfinity"
| "dneg MinusInfinity = PlusInfinity"
| "dneg NotANumber = NotANumber"

text \<open>\<^verbatim>\<open>x + y\<close>, \<^verbatim>\<open>x - y\<close>, \<^verbatim>\<open>x * y\<close> and \<^verbatim>\<open>x / y\<close>.\<close>

fun dadd :: "double \<Rightarrow> double \<Rightarrow> double" where
  "dadd (Finite x) (Finite y) = to_double (x + y)"
| "dadd NotANumber y = NotANumber"
| "dadd x NotANumber = NotANumber"
| "dadd PlusInfinity MinusInfinity = NotANumber"
| "dadd MinusInfinity PlusInfinity = NotANumber"
| "dadd PlusInfinity y = PlusInfinity"
| "dadd x PlusInfinity = PlusInfinity"
| "dadd MinusInfinity y = MinusInfinity"
| "dadd x MinusInfinity = MinusInfinity"

definition dsub :: "double \<Rightarrow> double \<Rightarrow> double" where
  "dsub x y = dadd x (dneg y)"

fun dmul :: "double \<Rightarrow> double \<Rightarrow> double" where
  "dmul (Finite x) (Finite y) = to_double (x * y)"
| "dmul NotANumber y = NotANumber"
| "dmul x NotANumber = NotANumber"
| "dmul (Finite x) y = (if x = 0 then NotANumber else if 0 < x then y else dneg y)"
| "dmul x (Finite y) = (if y = 0 then NotANumber else if 0 < y then x else dneg x)"
| "dmul PlusInfinity y = y"
| "dmul MinusInfinity y = dneg y"

fun ddiv :: "double \<Rightarrow> double \<Rightarrow> double" where
  "ddiv (Finite x) (Finite y) =
     (if y = 0
      then (if x = 0 then NotANumber else if 0 < x then PlusInfinity else MinusInfinity)
      else to_double (x / y))"
| "ddiv NotANumber y = NotANumber"
| "ddiv x NotANumber = NotANumber"
| "ddiv (Finite x) y = Finite 0"
| "ddiv x (Finite y) = (if 0 \<le> y then x else dneg x)"
| "ddiv x y = NotANumber"

text \<open>\<^verbatim>\<open>x < y\<close>, false when either is \<^verbatim>\<open>NaN\<close>; \<^verbatim>\<open>x > y\<close> is \<open>dless y x\<close>.\<close>

fun dless :: "double \<Rightarrow> double \<Rightarrow> bool" where
  "dless (Finite x) (Finite y) = (x < y)"
| "dless NotANumber y = False"
| "dless x NotANumber = False"
| "dless x MinusInfinity = False"
| "dless PlusInfinity y = False"
| "dless x y = True"

text \<open>A number is falsy when it is zero or \<^verbatim>\<open>NaN\<close>.\<close>

fun truthy :: "double \<Rightarrow> bool" where
  "truthy (Finite x) = (x \<noteq> 0)"
| "truthy NotANumber = False"
| "truthy x = True"

text \<open>\<^verbatim>\<open>Math.round\<close>: the nearest integer, a tie going up.\<close>

fun Math_round :: "double \<Rightarrow> double" where
  "Math_round (Finite x) = Finite (real_of_int \<lfloor>x + 1 / 2\<rfloor>)"
| "Math_round x = x"

text \<open>An integer value (a length, a count, a literal) as a number; it is exact.\<close>

definition of_count :: "nat \<Rightarrow> double" where
  "of_count n = Finite (real n)"

section \<open>The scoring engine\<close>

text \<open>
  The section interfaces of \<^verbatim>\<open>types/waste.ts\<close>, with the fields the scoring functions read.
  The enumerations are the strings they are at run time (the functions compare them with
  string literals, and reconstruction does not check them). A field that the functions read
  defensively (\<^verbatim>\<open>?.\<close>, \<^verbatim>\<open>|| 0\<close>, \<^verbatim>\<open>|| 5\<close>, \<^verbatim>\<open>|| []\<close>) may be absent.
\<close>

record BinInventoryItem =
  binType :: string
  signagePresent :: bool
  signageQuality :: double

record FacilityWasteInfrastructure =
  binInventory :: "BinInventoryItem list option"

record WasteStreamAssessment =
  wasteStream :: string
  estimatedWeeklyVolumeLitres :: "double option"
  contaminationLevel :: "double option"
  annualCostEuros :: "double option"

record WasteStreamsAssessment =
  assessments :: "WasteStreamAssessment list option"

record OrganicWasteComposting =
  kitchenPresent :: bool
  compostingSystem :: string

record WastePreventionMeasures =
  procurementPolicy :: "string option"
  reusableCupsBottles :: "string option"
  waterFountainsRefillStations :: "string option"
  paperlessCommunication :: "string option"
  donationSystem :: "string option"
  repairCafe :: "string option"
  bulkBuying :: "string option"
  eliminateSingleUse :: "string option"

record BehavioralTraining =
  wasteChampionAppointed :: bool
  userEducationMaterialsDisplayed :: bool
  wasteMonitoringRecordsKept :: string

type_synonym 'c AuditData =
  "(FacilityWasteInfrastructure, WasteStreamsAssessment, 'c, OrganicWasteComposting,
    WastePreventionMeasures, BehavioralTraining) WasteAuditData"

record WasteAuditCalculations =
  estimatedAnnualWasteCost :: double
  potentialSavingsFromContaminationReduction :: double
  recyclingRateEstimate :: double
  weeklyWastePerUser :: double
  carbonFootprintEstimate :: double

text \<open>The property \<^verbatim>\<open>id\<close> of a quick win is \<open>quickwin_id\<close> here.\<close>

record QuickWin =
  quickwin_id :: string
  title :: string
  description :: string
  estimatedCostEuros :: int
  estimatedSavingsEuros :: int
  impactLevel :: string
  priority :: nat
  category :: string

text \<open>\<^verbatim>\<open>x || d\<close> on a number that may be absent: \<^verbatim>\<open>undefined\<close>, \<^verbatim>\<open>0\<close> and \<^verbatim>\<open>NaN\<close> are falsy.\<close>

definition number_or :: "double option \<Rightarrow> double \<Rightarrow> double" where
  "number_or x d = (case x of Some v \<Rightarrow> if truthy v then v else d | None \<Rightarrow> d)"

text \<open>\<^verbatim>\<open>x > c\<close> on a number that may be absent: \<^verbatim>\<open>undefined > c\<close> is false.\<close>

definition greater_than :: "double option \<Rightarrow> double \<Rightarrow> bool" where
  "greater_than x c = (case x of Some v \<Rightarrow> dless c v | None \<Rightarrow> False)"

text \<open>
  The body of the \<^verbatim>\<open>forEach\<close> of \<^verbatim>\<open>calculateWasteMetrics\<close>, on its four counters (the
  fourth counts streams and stays an integer).
\<close>

definition metrics_step ::
  "WasteStreamAssessment \<Rightarrow> double \<times> double \<times> double \<times> nat
     \<Rightarrow> double \<times> double \<times> double \<times> nat" where
  "metrics_step stream acc =
     (case acc of (totalAnnualCost, totalWeeklyVolume, recyclableVolume, contaminationIssues) \<Rightarrow>
        ((case annualCostEuros stream of
            Some c \<Rightarrow> if truthy c then dadd totalAnnualCost c else totalAnnualCost
          | None \<Rightarrow> totalAnnualCost),
         dadd totalWeeklyVolume (number_or (estimatedWeeklyVolumeLitres stream) (Finite 0)),
         (if wasteStream stream = ''dry_recyclables'' \<or> wasteStream stream = ''organic''
          then dadd recyclableVolume (number_or (estimatedWeeklyVolumeLitres stream) (Finite 0))
          else recyclableVolume),
         (if greater_than (contaminationLevel stream) (Finite 3) then contaminationIssues + 1
          else contaminationIssues)))"

definition calculateWasteMetrics :: "'c AuditData \<Rightarrow> double \<Rightarrow> WasteAuditCalculations" where
  "calculateWasteMetrics data userCount =
     (case (case wasteStreamsAssessment data of
              Some w \<Rightarrow> (case assessments w of
                           Some streams \<Rightarrow>
                             fold metrics_step streams (Finite 0, Finite 0, Finite 0, 0)
                         | None \<Rightarrow> (Finite 0, Finite 0, Finite 0, 0))
            | None \<Rightarrow> (Finite 0, Finite 0, Finite 0, 0)) of
        (totalAnnualCost, totalWeeklyVolume, recyclableVolume, contaminationIssues) \<Rightarrow>
          let recyclingRate =
                (if dless (Finite 0) totalWeeklyVolume
                 then dmul (ddiv recyclableVolume totalWeeklyVolume) (Finite 100)
                 else Finite 0);
              potentialSavings =
                (if contaminationIssues > 0 then dmul totalAnnualCost (to_double (15 / 100))
                 else Finite 0);
              weeklyWastePerUser' =
                (if dless (Finite 0) userCount
                 then ddiv (dmul totalWeeklyVolume (Finite (1 / 2))) userCount
                 else Finite 0);
              carbonFootprint =
                dmul (dmul (dmul totalWeeklyVolume (Finite (1 / 2))) (Finite 52)) (Finite (1 / 2))
          in \<lparr>estimatedAnnualWasteCost = totalAnnualCost,
              potentialSavingsFromContaminationReduction = potentialSavings,
              recyclingRateEstimate =
                ddiv (Math_round (dmul recyclingRate (Finite 100))) (Finite 100),
              weeklyWastePerUser =
                ddiv (Math_round (dmul weeklyWastePerUser' (Finite 100))) (Finite 100),
              carbonFootprintEstimate = Math_round carbonFootprint\<rparr>)"

text \<open>
  \<^verbatim>\<open>generateQuickWins\<close> keeps a list and a counter: each check that holds pushes its quick
  win with \<^verbatim>\<open>priority++\<close>.
\<close>

definition push_if ::
  "bool \<Rightarrow> (nat \<Rightarrow> QuickWin) \<Rightarrow> QuickWin list \<times> nat \<Rightarrow> QuickWin list \<times> nat" where
  "push_if c quickWin st =
     (case st of (quickWins, p) \<Rightarrow>
        if c then (quickWins @ [quickWin p], p + 1) else (quickWins, p))"

definition generateQuickWins :: "'c AuditData \<Rightarrow> QuickWin list" where
  "generateQuickWins data =
     (let inventory =
            (case facilityInfrastructure data of
               Some f \<Rightarrow> (case binInventory f of Some bins \<Rightarrow> bins | None \<Rightarrow> [])
             | None \<Rightarrow> []);
          hasRecyclingBins = list_ex (\<lambda>bin. binType bin = ''dry_recyclables'') inventory;
          poorSignageBins =
            filter (\<lambda>bin. signagePresent bin \<and> dless (signageQuality bin) (Finite 3)) inventory;
          contaminatedStreams =
            (case wasteStreamsAssessment data of
               Some w \<Rightarrow>
                 (case assessments w of
                    Some streams \<Rightarrow>
                      filter (\<lambda>stream. greater_than (contaminationLevel stream) (Finite 3))
                        streams
                  | None \<Rightarrow> [])
             | None \<Rightarrow> []);
          st1 = push_if (\<not> hasRecyclingBins)
                  (\<lambda>p. \<lparr>quickwin_id = ''add-recycling-bins'', title = ''Add Recycling Bins'',
                        description = ''No recycling bins detected. Adding clearly labelled recycling bins can reduce general waste costs.'',
                        estimatedCostEuros = 150, estimatedSavingsEuros = 500,
                        impactLevel = ''high'', priority = p, category = ''infrastructure''\<rparr>)
                  ([], 1);
          st2 = push_if (length poorSignageBins > 0)
                  (\<lambda>p. \<lparr>quickwin_id = ''improve-signage'', title = ''Improve Bin Signage'',
                        description = nat_toString (length poorSignageBins)
                          @ '' bins have poor signage quality. Clear signage reduces contamination.'',
                        estimatedCostEuros = 50, estimatedSavingsEuros = 200,
                        impactLevel = ''medium'', priority = p, category = ''infrastructure''\<rparr>)
                  st1;
          st3 = push_if (length contaminatedStreams > 0)
                  (\<lambda>p. \<lparr>quickwin_id = ''contamination-training'', title = ''Staff Waste Training'',
                        description = ''High contamination levels detected. Staff training can reduce collection costs.'',
                        estimatedCostEuros = 100, estimatedSavingsEuros = 400,
                        impactLevel = ''high'', priority = p, category = ''training''\<rparr>)
                  st2;
          st4 = push_if (case behavioralTraining data of
                           Some t \<Rightarrow> \<not> wasteChampionAppointed t
                         | None \<Rightarrow> True)
                  (\<lambda>p. \<lparr>quickwin_id = ''appoint-champion'', title = ''Appoint Waste Champion'',
                        description = ''Designate a staff member as waste champion to drive improvements.'',
                        estimatedCostEuros = 0, estimatedSavingsEuros = 300,
                        impactLevel = ''medium'', priority = p, category = ''training''\<rparr>)
                  st3;
          st5 = push_if (case organicWasteComposting data of
                           Some organic \<Rightarrow>
                             kitchenPresent organic \<and> compostingSystem organic = ''none''
                         | None \<Rightarrow> False)
                  (\<lambda>p. \<lparr>quickwin_id = ''start-composting'', title = ''Start Composting System'',
                        description = ''Kitchen present but no composting. A simple system could reduce organic waste costs.'',
                        estimatedCostEuros = 200, estimatedSavingsEuros = 600,
                        impactLevel = ''high'', priority = p, category = ''prevention''\<rparr>)
                  st4
      in take 5 (sort_key priority (fst st5)))"

definition measures :: "string list" where
  "measures =
     [''procurementPolicy'', ''reusableCupsBottles'', ''waterFountainsRefillStations'',
      ''paperlessCommunication'', ''donationSystem'', ''repairCafe'', ''bulkBuying'',
      ''eliminateSingleUse'']"

text \<open>\<^verbatim>\<open>prevention[measure]\<close>\<close>

definition measure_of :: "WastePreventionMeasures \<Rightarrow> string \<Rightarrow> string option" where
  "measure_of prevention m =
     (if m = ''procurementPolicy'' then procurementPolicy prevention
      else if m = ''reusableCupsBottles'' then reusableCupsBottles prevention
      else if m = ''waterFountainsRefillStations'' then waterFountainsRefillStations prevention
      else if m = ''paperlessCommunication'' then paperlessCommunication prevention
      else if m = ''donationSystem'' then donationSystem prevention
      else if m = ''repairCafe'' then repairCafe prevention
      else if m = ''bulkBuying'' then bulkBuying prevention
      else if m = ''eliminateSingleUse'' then eliminateSingleUse prevention
      else None)"

text \<open>The points are small integers, added exactly; the division and the product round.\<close>

definition calculatePreventionScore :: "WastePreventionMeasures option \<Rightarrow> double" where
  "calculatePreventionScore prevention' =
     (case prevention' of
        None \<Rightarrow> Finite 0
      | Some prevention \<Rightarrow>
          let score =
                fold (\<lambda>m score.
                        let v = measure_of prevention m
                        in if v = Some ''full'' then score + 4
                           else if v = Some ''partial'' then score + 2
                           else if v = Some ''planned'' then score + 1
                           else score) measures (0 :: nat)
          in dmul (ddiv (of_count score) (of_count (length measures * 4))) (Finite 100))"

definition calculateOverallScore :: "'c AuditData \<Rightarrow> double" where
  "calculateOverallScore data =
     (let binCount =
            (case facilityInfrastructure data of
               Some f \<Rightarrow> (case binInventory f of Some bins \<Rightarrow> length bins | None \<Rightarrow> 0)
             | None \<Rightarrow> 0);
          recyclingBins =
            (case facilityInfrastructure data of
               Some f \<Rightarrow>
                 (case binInventory f of
                    Some bins \<Rightarrow> length (filter (\<lambda>bin. binType bin = ''dry_recyclables'') bins)
                  | None \<Rightarrow> 0)
             | None \<Rightarrow> 0);
          score1 = dadd (dadd (Finite 0) (of_count (min (binCount * 2) 10)))
                     (if recyclingBins > 0 then Finite 10 else Finite 0);
          maxScore1 = dadd (Finite 0) (Finite 20);
          preventionScore = calculatePreventionScore (wastePreventionMeasures data);
          score2 = dadd score1 (dmul (ddiv preventionScore (Finite 100)) (Finite 30));
          maxScore2 = dadd maxScore1 (Finite 30);
          score3 =
            (case behavioralTraining data of
               Some t \<Rightarrow>
                 let s1 = (if wasteChampionAppointed t then dadd score2 (Finite 10) else score2);
                     s2 = (if userEducationMaterialsDisplayed t then dadd s1 (Finite 10) else s1)
                 in if wasteMonitoringRecordsKept t \<noteq> ''never'' then dadd s2 (Finite 5) else s2
             | None \<Rightarrow> score2);
          maxScore3 =
            (case behavioralTraining data of
               Some t \<Rightarrow> dadd maxScore2 (Finite 25)
             | None \<Rightarrow> maxScore2);
          streams =
            (case wasteStreamsAssessment data of
               Some w \<Rightarrow> (case assessments w of Some ss \<Rightarrow> ss | None \<Rightarrow> [])
             | None \<Rightarrow> []);
          score4 =
            (if length streams > 0
             then let avgContamination =
                        ddiv (fold (\<lambda>s sum. dadd sum (number_or (contaminationLevel s) (Finite 5)))
                                streams (Finite 0))
                          (of_count (length streams))
                  in dadd score3
                       (dmul (ddiv (dsub (Finite 5) avgContamination) (Finite 4)) (Finite 25))
             else score3);
          maxScore4 = (if length streams > 0 then dadd maxScore3 (Finite 25) else maxScore3)
      in if dless (Finite 0) maxScore4
         then Math_round (dmul (ddiv score4 maxScore4) (Finite 100))
         else Finite 0)"

section \<open>What the specification says, in terms of the tables and the sections\<close>

text \<open>The text values stored for a key of an audit, oldest row first.\<close>

definition stored_texts :: "int \<Rightarrow> string \<Rightarrow> database \<Rightarrow> string list" where
  "stored_texts aid k db =
     map response (filter (\<lambda>r. audit_id r = aid \<and> item_key r = k) (waste_data db))"

definition texts_of :: "string \<Rightarrow> (string \<times> string) list \<Rightarrow> string list" where
  "texts_of k records = map snd (filter (\<lambda>r. fst r = k) records)"

definition last_option :: "'a list \<Rightarrow> 'a option" where
  "last_option xs = (if xs = [] then None else Some (last xs))"

text \<open>The four scalar metadata names, and the ten names reconstruction knows.\<close>

definition metadata_keys :: "string list" where
  "metadata_keys = [''completedSections'', ''isQuickMode'', ''syncStatus'', ''lastSaved'']"

definition known_keys :: "string list" where
  "known_keys = sections @ metadata_keys"

text \<open>
  A valid partial record: each section it has is a value the JSON codec gives back
  unchanged, the count of completed sections is an integer from 0 to 6, and the
  synchronisation state is one of the three legal ones.
\<close>

definition valid_record :: "('j \<Rightarrow> string) \<Rightarrow> (string \<Rightarrow> 'j option) \<Rightarrow> 'j StoredAudit \<Rightarrow> bool" where
  "valid_record stringify parse r =
     (list_all (\<lambda>k. case section_of r k of
                       None \<Rightarrow> True
                     | Some v \<Rightarrow> parse (stringify v) = Some v) sections
      \<and> (case completedSections r of
            None \<Rightarrow> True
          | Some (Fin n) \<Rightarrow> 0 \<le> n \<and> n \<le> 6
          | Some other \<Rightarrow> False)
      \<and> (case syncStatus r of
            None \<Rightarrow> True
          | Some s \<Rightarrow> s \<in> set [''synced'', ''pending'', ''offline'']))"

text \<open>
  A small JSON codec to run the operations on concrete tables: a section is written as its
  canonical text, and the parser knows the empty object and the empty array.
\<close>

definition example_stringify :: "string \<Rightarrow> string" where
  "example_stringify v = v"

definition example_parse :: "string \<Rightarrow> string option" where
  "example_parse t = (if t = ''{}'' \<or> t = ''[]'' then Some t else None)"

text \<open>
  The text begins, after white space and one optional sign, with a decimal digit.
\<close>

definition leading_digit :: "string \<Rightarrow> bool" where
  "leading_digit t =
     (case strip_white t of
        [] \<Rightarrow> False
      | c # cs \<Rightarrow>
          if c = CHR ''+'' \<or> c = CHR ''-''
          then (case cs of [] \<Rightarrow> False | c' # cs' \<Rightarrow> radix_digit 10 c')
          else radix_digit 10 c)"

text \<open>The bins and the streams of a record, none when the section or the list is absent.\<close>

definition bins_of :: "'c AuditData \<Rightarrow> BinInventoryItem list" where
  "bins_of data =
     (case facilityInfrastructure data of
        Some f \<Rightarrow> (case binInventory f of Some bins \<Rightarrow> bins | None \<Rightarrow> [])
      | None \<Rightarrow> [])"

definition streams_of :: "'c AuditData \<Rightarrow> WasteStreamAssessment list" where
  "streams_of data =
     (case wasteStreamsAssessment data of
        Some w \<Rightarrow> (case assessments w of Some ss \<Rightarrow> ss | None \<Rightarrow> [])
      | None \<Rightarrow> [])"

text \<open>
  The weekly volume of a stream (0 when none is given), the annual costs that are given and
  not zero, and a sum taken in the order of the list.
\<close>

definition volume_of :: "WasteStreamAssessment \<Rightarrow> double" where
  "volume_of s = number_or (estimatedWeeklyVolumeLitres s) (Finite 0)"

definition costs_of :: "WasteStreamAssessment list \<Rightarrow> double list" where
  "costs_of ss =
     List.map_filter
       (\<lambda>s. case annualCostEuros s of
               Some c \<Rightarrow> if truthy c then Some c else None
             | None \<Rightarrow> None) ss"

definition dsum :: "double list \<Rightarrow> double" where
  "dsum xs = foldl dadd (Finite 0) xs"

definition total_volume :: "'c AuditData \<Rightarrow> double" where
  "total_volume data = dsum (map volume_of (streams_of data))"

definition recyclable_volume :: "'c AuditData \<Rightarrow> double" where
  "recyclable_volume data =
     dsum (map volume_of
       (filter (\<lambda>s. wasteStream s = ''dry_recyclables'' \<or> wasteStream s = ''organic'')
          (streams_of data)))"

definition total_cost :: "'c AuditData \<Rightarrow> double" where
  "total_cost data = dsum (costs_of (streams_of data))"

definition contaminated :: "'c AuditData \<Rightarrow> bool" where
  "contaminated data =
     list_ex (\<lambda>s. case contaminationLevel s of Some c \<Rightarrow> dless (Finite 3) c | None \<Rightarrow> False)
       (streams_of data)"

text \<open>Rounded to two decimals: \<^verbatim>\<open>Math.round(x * 100) / 100\<close>.\<close>

definition round2 :: "double \<Rightarrow> double" where
  "round2 x = ddiv (Math_round (dmul x (Finite 100))) (Finite 100)"

text \<open>
  The metrics in the words of the specification, in the arithmetic of the code: the
  recycling rate is recyclable volume over total volume times 100, and 0 when the total
  volume is 0; the weekly waste per user is 0 when the user count is 0 or less.
\<close>

definition spec_metrics :: "'c AuditData \<Rightarrow> double \<Rightarrow> WasteAuditCalculations" where
  "spec_metrics data userCount =
     \<lparr>estimatedAnnualWasteCost = total_cost data,
      potentialSavingsFromContaminationReduction =
        (if contaminated data then dmul (total_cost data) (to_double (15 / 100)) else Finite 0),
      recyclingRateEstimate =
        round2 (if total_volume data = Finite 0 then Finite 0
                else dmul (ddiv (recyclable_volume data) (total_volume data)) (Finite 100)),
      weeklyWastePerUser =
        round2 (if userCount = Finite 0 \<or> dless userCount (Finite 0) then Finite 0
                else ddiv (dmul (total_volume data) (Finite (1 / 2))) userCount),
      carbonFootprintEstimate =
        Math_round
          (dmul (dmul (dmul (total_volume data) (Finite (1 / 2))) (Finite 52)) (Finite (1 / 2)))\<rparr>"

text \<open>
  The same, the recycling rate being 0 unless the total volume is greater than 0, and the
  weekly waste per user 0 unless the user count is greater than 0.
\<close>

definition metrics_formulas :: "'c AuditData \<Rightarrow> double \<Rightarrow> WasteAuditCalculations" where
  "metrics_formulas data userCount =
     (spec_metrics data userCount)
       \<lparr>recyclingRateEstimate :=
          round2 (if dless (Finite 0) (total_volume data)
                  then dmul (ddiv (recyclable_volume data) (total_volume data)) (Finite 100)
                  else Finite 0),
        weeklyWastePerUser :=
          round2 (if dless (Finite 0) userCount
                  then ddiv (dmul (total_volume data) (Finite (1 / 2))) userCount
                  else Finite 0)\<rparr>"

text \<open>The five checks of the quick wins, in the order they are declared, with their ids.\<close>

definition quick_win_checks :: "'c AuditData \<Rightarrow> (bool \<times> string) list" where
  "quick_win_checks data =
     [(\<not> list_ex (\<lambda>b. binType b = ''dry_recyclables'') (bins_of data), ''add-recycling-bins''),
      (list_ex (\<lambda>b. signagePresent b \<and> dless (signageQuality b) (Finite 3)) (bins_of data),
       ''improve-signage''),
      (contaminated data, ''contamination-training''),
      (case behavioralTraining data of Some t \<Rightarrow> \<not> wasteChampionAppointed t | None \<Rightarrow> True,
       ''appoint-champion''),
      (case organicWasteComposting data of
         Some organic \<Rightarrow> kitchenPresent organic \<and> compostingSystem organic = ''none''
       | None \<Rightarrow> False,
       ''start-composting'')]"

text \<open>The key and text of each row a list of statements writes.\<close>

definition statement_records :: "(string \<times> string \<times> string) list \<Rightarrow> (string \<times> string) list" where
  "statement_records stmts = map (\<lambda>(k, v, n). (k, v)) stmts"

text \<open>A database with one audit and no entries.\<close>

definition example_db :: database where
  "example_db = \<lparr>audits = {1}, waste_data = [], sqlite_sequence = 0\<rparr>"

text \<open>
  The record the entries of an audit stand for: for a scalar the last entry of its key, for
  a section the last entry of its key that parses.
\<close>

definition latest_section :: "(string \<Rightarrow> 'j option) \<Rightarrow> string \<Rightarrow> (string \<times> string) list \<Rightarrow> 'j option" where
  "latest_section parse k records = last_option (List.map_filter parse (texts_of k records))"

definition decoded :: "(string \<Rightarrow> 'j option) \<Rightarrow> int \<Rightarrow> (string \<times> string) list \<Rightarrow> 'j StoredAudit" where
  "decoded parse aid records =
     \<lparr>data_id = None, auditId = Some aid,
      facilityInfrastructure = latest_section parse ''facilityInfrastructure'' records,
      wasteStreamsAssessment = latest_section parse ''wasteStreamsAssessment'' records,
      specialWasteManagement = latest_section parse ''specialWasteManagement'' records,
      organicWasteComposting = latest_section parse ''organicWasteComposting'' records,
      wastePreventionMeasures = latest_section parse ''wastePreventionMeasures'' records,
      behavioralTraining = latest_section parse ''behavioralTraining'' records,
      completedSections = map_option parseInt (last_option (texts_of ''completedSections'' records)),
      isQuickMode = map_option (\<lambda>t. t = ''true'') (last_option (texts_of ''isQuickMode'' records)),
      lastSaved = last_option (texts_of ''lastSaved'' records),
      syncStatus = last_option (texts_of ''syncStatus'' records)\<rparr>"

text \<open>
  An audit whose infrastructure entry is not JSON and whose count of completed sections is
  not a number.
\<close>

definition example_malformed_db :: database where
  "example_malformed_db =
     example_db\<lparr>waste_data :=
       [\<lparr>row_id = 1, audit_id = 1, item_key = ''facilityInfrastructure'', response = ''{oops'',
          notes_col = ''Waste audit section: facilityInfrastructure''\<rparr>,
        \<lparr>row_id = 2, audit_id = 1, item_key = ''wasteStreamsAssessment'', response = ''[]'',
          notes_col = ''Waste audit section: wasteStreamsAssessment''\<rparr>,
        \<lparr>row_id = 3, audit_id = 1, item_key = ''completedSections'', response = ''abc'',
          notes_col = ''Number of completed sections''\<rparr>],
       sqlite_sequence := 3\<rparr>"

text \<open>
  An audit with two entries under one section key, the older one JSON and the newer one not.
\<close>

definition example_stale_db :: database where
  "example_stale_db =
     example_db\<lparr>waste_data :=
       [\<lparr>row_id = 1, audit_id = 1, item_key = ''facilityInfrastructure'', response = ''{}'',
          notes_col = ''Waste audit section: facilityInfrastructure''\<rparr>,
        \<lparr>row_id = 2, audit_id = 1, item_key = ''facilityInfrastructure'', response = ''{oops'',
          notes_col = ''Updated: facilityInfrastructure''\<rparr>],
       sqlite_sequence := 2\<rparr>"

text \<open>A valid partial record with two sections and all metadata.\<close>

definition example_record :: "string StoredAudit" where
  "example_record =
     no_data\<lparr>data_id := Some 9, facilityInfrastructure := Some ''{}'',
       wasteStreamsAssessment := Some ''[]'', completedSections := Some (Fin 2),
       isQuickMode := Some False, lastSaved := Some ''2024-12-31T23:59:59.000Z'',
       syncStatus := Some ''synced''\<rparr>"

text \<open>Records for the scoring engine: a stream, and a record with streams only.\<close>

definition example_stream :: "string \<Rightarrow> real \<Rightarrow> real \<Rightarrow> real \<Rightarrow> WasteStreamAssessment" where
  "example_stream kind volume level cost =
     \<lparr>wasteStream = kind, estimatedWeeklyVolumeLitres = Some (Finite volume),
      contaminationLevel = Some (Finite level), annualCostEuros = Some (Finite cost)\<rparr>"

definition example_streams :: "WasteStreamAssessment list \<Rightarrow> unit AuditData" where
  "example_streams ss = no_data\<lparr>wasteStreamsAssessment := Some \<lparr>assessments = Some ss\<rparr>\<rparr>"

text \<open>
  A record with one bin for dry recyclables, without signage, and no waste champion.
\<close>

definition example_bins_record :: "unit AuditData" where
  "example_bins_record =
     no_data\<lparr>facilityInfrastructure :=
               Some \<lparr>binInventory =
                       Some [\<lparr>binType = ''dry_recyclables'', signagePresent = False,
                               signageQuality = Finite 1\<rparr>]\<rparr>,
             behavioralTraining :=
               Some \<lparr>wasteChampionAppointed = False, userEducationMaterialsDisplayed = True,
                      wasteMonitoringRecordsKept = ''monthly''\<rparr>\<rparr>"

text \<open>
  A record on the scale of the form: no bins, two prevention measures in full, a waste
  champion, education materials and monthly records, and one stream of contamination 1.
\<close>

definition example_scored_record :: "unit AuditData" where
  "example_scored_record =
     no_data\<lparr>wasteStreamsAssessment :=
               Some \<lparr>assessments = Some [example_stream ''general'' 100 1 0]\<rparr>,
             wastePreventionMeasures :=
               Some \<lparr>procurementPolicy = Some ''full'', reusableCupsBottles = Some ''full'',
                      waterFountainsRefillStations = None, paperlessCommunication = None,
                      donationSystem = None, repairCafe = None, bulkBuying = None,
                      eliminateSingleUse = None\<rparr>,
             behavioralTraining :=
               Some \<lparr>wasteChampionAppointed = True, userEducationMaterialsDisplayed = True,
                      wasteMonitoringRecordsKept = ''monthly''\<rparr>\<rparr>"

section \<open>Reconstruction, field by field\<close>

lemma last_option_simps [simp]:
  "last_option [] = None" "last_option (xs @ [x]) = Some x" "last_option [x] = Some x"
  by (simp_all add: last_option_def)

lemma last_option_append_twice: "last_option (xs @ ys @ ys) = last_option (xs @ ys)"
  by (cases "ys = []") (simp_all add: last_option_def)

lemma texts_of_simps [simp]:
  "texts_of k [] = []"
  "texts_of k (rs @ rs') = texts_of k rs @ texts_of k rs'"
  "texts_of k ((k', t) # rs) = (if k' = k then t # texts_of k rs else texts_of k rs)"
  by (simp_all add: texts_of_def)

lemma texts_of_select: "texts_of k (select_waste_data aid db) = stored_texts aid k db"
  by (simp add: texts_of_def select_waste_data_def stored_texts_def filter_map comp_def conj_commute)

lemma map_filter_snoc:
  "List.map_filter f (xs @ [x]) =
     (case f x of None \<Rightarrow> List.map_filter f xs | Some y \<Rightarrow> List.map_filter f xs @ [y])"
  by (simp add: List.map_filter_def split: option.splits)

lemma map_filter_append: "List.map_filter f (xs @ ys) = List.map_filter f xs @ List.map_filter f ys"
  by (simp add: List.map_filter_def)

lemma metadata_keys_not_sections:
  "''completedSections'' \<notin> set sections" "''isQuickMode'' \<notin> set sections"
  "''syncStatus'' \<notin> set sections" "''lastSaved'' \<notin> set sections"
  "''id'' \<notin> set sections" "''auditId'' \<notin> set sections"
  by (simp_all add: sections_def)

lemma set_section_fields:
  "data_id (set_section k v d) = data_id d"
  "auditId (set_section k v d) = auditId d"
  "completedSections (set_section k v d) = completedSections d"
  "isQuickMode (set_section k v d) = isQuickMode d"
  "syncStatus (set_section k v d) = syncStatus d"
  "lastSaved (set_section k v d) = lastSaved d"
  "WasteAuditData.more (set_section k v d) = WasteAuditData.more d"
  by (simp_all add: set_section_def)

lemma section_of_set_section:
  "section_of (set_section k' v d) k = (if k = k' \<and> k \<in> set sections then Some v else section_of d k)"
  by (simp add: section_of_def set_section_def sections_def)

lemma decode_record_section:
  "k \<in> set sections \<Longrightarrow>
   decode_record parse (k, t) d = (case parse t of Some v \<Rightarrow> set_section k v d | None \<Rightarrow> d)"
  by (simp add: decode_record_def)

lemma decode_record_other:
  "k \<notin> set sections \<Longrightarrow>
   decode_record parse (k, t) d =
     (if k = ''completedSections'' then d\<lparr>completedSections := Some (parseInt t)\<rparr>
      else if k = ''isQuickMode'' then d\<lparr>isQuickMode := Some (t = ''true'')\<rparr>
      else if k = ''syncStatus'' then d\<lparr>syncStatus := Some t\<rparr>
      else if k = ''lastSaved'' then d\<lparr>lastSaved := Some t\<rparr>
      else d)"
  by (simp add: decode_record_def)

lemma section_of_update [simp]:
  "section_of (d\<lparr>completedSections := a\<rparr>) k = section_of d k"
  "section_of (d\<lparr>isQuickMode := b\<rparr>) k = section_of d k"
  "section_of (d\<lparr>syncStatus := c\<rparr>) k = section_of d k"
  "section_of (d\<lparr>lastSaved := c\<rparr>) k = section_of d k"
  "section_of (d\<lparr>auditId := i\<rparr>) k = section_of d k"
  "section_of (d\<lparr>data_id := i\<rparr>) k = section_of d k"
  by (simp_all add: section_of_def)

lemma section_of_decode_record:
  "section_of (decode_record parse (k', t) d) k =
     (if k = k' \<and> k \<in> set sections
      then (case parse t of None \<Rightarrow> section_of d k | Some v \<Rightarrow> Some v)
      else section_of d k)"
proof (cases "k' \<in> set sections")
  case True
  then show ?thesis
    by (simp add: decode_record_section section_of_set_section split: option.splits)
next
  case False
  then show ?thesis
    by (auto simp add: decode_record_other)
qed

lemma fields_decode_record:
  "data_id (decode_record parse (k, t) d) = data_id d"
  "auditId (decode_record parse (k, t) d) = auditId d"
  "WasteAuditData.more (decode_record parse (k, t) d) = WasteAuditData.more d"
  "completedSections (decode_record parse (k, t) d) =
     (if k = ''completedSections'' then Some (parseInt t) else completedSections d)"
  "isQuickMode (decode_record parse (k, t) d) =
     (if k = ''isQuickMode'' then Some (t = ''true'') else isQuickMode d)"
  "syncStatus (decode_record parse (k, t) d) =
     (if k = ''syncStatus'' then Some t else syncStatus d)"
  "lastSaved (decode_record parse (k, t) d) =
     (if k = ''lastSaved'' then Some t else lastSaved d)"
proof -
  consider (sec) "k \<in> set sections" | (other) "k \<notin> set sections"
    by blast
  then have
    "data_id (decode_record parse (k, t) d) = data_id d \<and>
     auditId (decode_record parse (k, t) d) = auditId d \<and>
     WasteAuditData.more (decode_record parse (k, t) d) = WasteAuditData.more d \<and>
     completedSections (decode_record parse (k, t) d) =
       (if k = ''completedSections'' then Some (parseInt t) else completedSections d) \<and>
     isQuickMode (decode_record parse (k, t) d) =
       (if k = ''isQuickMode'' then Some (t = ''true'') else isQuickMode d) \<and>
     syncStatus (decode_record parse (k, t) d) =
       (if k = ''syncStatus'' then Some t else syncStatus d) \<and>
     lastSaved (decode_record parse (k, t) d) =
       (if k = ''lastSaved'' then Some t else lastSaved d)"
  proof cases
    case sec
    then show ?thesis
      using metadata_keys_not_sections
      by (auto simp add: decode_record_section set_section_fields split: option.splits)
  next
    case other
    then show ?thesis
      by (simp add: decode_record_other)
  qed
  then show
    "data_id (decode_record parse (k, t) d) = data_id d"
    "auditId (decode_record parse (k, t) d) = auditId d"
    "WasteAuditData.more (decode_record parse (k, t) d) = WasteAuditData.more d"
    "completedSections (decode_record parse (k, t) d) =
       (if k = ''completedSections'' then Some (parseInt t) else completedSections d)"
    "isQuickMode (decode_record parse (k, t) d) =
       (if k = ''isQuickMode'' then Some (t = ''true'') else isQuickMode d)"
    "syncStatus (decode_record parse (k, t) d) =
       (if k = ''syncStatus'' then Some t else syncStatus d)"
    "lastSaved (decode_record parse (k, t) d) =
       (if k = ''lastSaved'' then Some t else lastSaved d)"
    by simp_all
qed

lemma section_of_fold:
  assumes "section_of d k = None"
  shows "section_of (fold (decode_record parse) rs d) k =
     (if k \<in> set sections then last_option (List.map_filter parse (texts_of k rs)) else None)"
proof (induction rs rule: rev_induct)
  case Nil
  show ?case by (simp add: assms)
next
  case (snoc r rs)
  obtain k' t where r: "r = (k', t)" by (cases r)
  show ?case
  proof (cases "k = k' \<and> k \<in> set sections")
    case True
    then have eq: "k' = k" and mem: "k \<in> set sections"
      by auto
    show ?thesis
      by (cases "parse t")
        (simp_all add: r eq mem snoc section_of_decode_record map_filter_snoc)
  next
    case False
    then show ?thesis
      by (auto simp add: r snoc section_of_decode_record)
  qed
qed

lemma fixed_fields_fold:
  "data_id (fold (decode_record parse) rs d) = data_id d"
  "auditId (fold (decode_record parse) rs d) = auditId d"
  "WasteAuditData.more (fold (decode_record parse) rs d) = WasteAuditData.more d"
proof (induction rs rule: rev_induct)
  case Nil
  {
    case 1 show ?case by simp
  next
    case 2 show ?case by simp
  next
    case 3 show ?case by simp
  }
next
  case (snoc r rs)
  obtain k t where r: "r = (k, t)" by (cases r)
  {
    case 1 show ?case by (simp add: r snoc fields_decode_record)
  next
    case 2 show ?case by (simp add: r snoc fields_decode_record)
  next
    case 3 show ?case by (simp add: r snoc fields_decode_record)
  }
qed

lemma completedSections_fold:
  assumes "completedSections d = None"
  shows "completedSections (fold (decode_record parse) rs d) =
     map_option parseInt (last_option (texts_of ''completedSections'' rs))"
proof (induction rs rule: rev_induct)
  case Nil
  show ?case by (simp add: assms)
next
  case (snoc r rs)
  obtain k t where r: "r = (k, t)" by (cases r)
  show ?case
    by (simp add: r snoc fields_decode_record)
qed

lemma isQuickMode_fold:
  assumes "isQuickMode d = None"
  shows "isQuickMode (fold (decode_record parse) rs d) =
     map_option (\<lambda>t. t = ''true'') (last_option (texts_of ''isQuickMode'' rs))"
proof (induction rs rule: rev_induct)
  case Nil
  show ?case by (simp add: assms)
next
  case (snoc r rs)
  obtain k t where r: "r = (k, t)" by (cases r)
  show ?case
    by (simp add: r snoc fields_decode_record)
qed

lemma syncStatus_fold:
  assumes "syncStatus d = None"
  shows "syncStatus (fold (decode_record parse) rs d) = last_option (texts_of ''syncStatus'' rs)"
proof (induction rs rule: rev_induct)
  case Nil
  show ?case by (simp add: assms)
next
  case (snoc r rs)
  obtain k t where r: "r = (k, t)" by (cases r)
  show ?case
    by (simp add: r snoc fields_decode_record)
qed

lemma lastSaved_fold:
  assumes "lastSaved d = None"
  shows "lastSaved (fold (decode_record parse) rs d) = last_option (texts_of ''lastSaved'' rs)"
proof (induction rs rule: rev_induct)
  case Nil
  show ?case by (simp add: assms)
next
  case (snoc r rs)
  obtain k t where r: "r = (k, t)" by (cases r)
  show ?case
    by (simp add: r snoc fields_decode_record)
qed

section \<open>Inserting rows\<close>

lemma fold_max_ge: "(a::nat) \<le> fold max xs a"
  by (induction xs arbitrary: a) (auto intro: order_trans [OF max.cobounded2])

lemma fold_max_member: "x \<in> set xs \<Longrightarrow> (x::nat) \<le> fold max xs a"
proof (induction xs arbitrary: a)
  case Nil
  then show ?case by simp
next
  case (Cons y ys)
  show ?case
  proof (cases "x = y")
    case True
    have "x \<le> max y a" using True by simp
    also have "\<dots> \<le> fold max ys (max y a)" by (rule fold_max_ge)
    finally show ?thesis by simp
  next
    case False
    with Cons.prems have "x \<in> set ys" by simp
    then show ?thesis using Cons.IH by simp
  qed
qed

lemma next_rowid_fresh: "r \<in> set (waste_data db) \<Longrightarrow> row_id r < next_rowid db"
  unfolding next_rowid_def using fold_max_member [of "row_id r" "map row_id (waste_data db)"]
  by (simp add: less_Suc_eq_le)

lemma replace_keeps_rows: "filter (\<lambda>r. row_id r \<noteq> next_rowid db) (waste_data db) = waste_data db"
proof -
  have "row_id r \<noteq> next_rowid db" if "r \<in> set (waste_data db)" for r
    using next_rowid_fresh [OF that] by simp
  then show ?thesis by (simp add: filter_id_conv)
qed

lemma insert_row_ok:
  assumes "a \<in> audits db"
  shows "insert_row or_replace a (k, v, n) db =
     Inr (db\<lparr>waste_data := waste_data db
               @ [\<lparr>row_id = next_rowid db, audit_id = a, item_key = k, response = v, notes_col = n\<rparr>],
             sqlite_sequence := next_rowid db\<rparr>)"
  using assms by (simp add: insert_row_def Let_def replace_keeps_rows)

lemma insert_row_fails:
  "a \<notin> audits db \<Longrightarrow> insert_row or_replace a stmt db = Inl ForeignKeyViolation"
  by (cases stmt) (simp add: insert_row_def Let_def)

lemma run_inserts_fails:
  "a \<notin> audits db \<Longrightarrow> stmts \<noteq> [] \<Longrightarrow> run_inserts or_replace a stmts db = Inl ForeignKeyViolation"
  by (cases stmts) (simp_all add: insert_row_fails)

lemma run_inserts_ok:
  assumes "a \<in> audits db"
  shows "\<exists>db'. run_inserts or_replace a stmts db = Inr db' \<and> audits db' = audits db
           \<and> (\<forall>a'. select_waste_data a' db' =
                 select_waste_data a' db @ (if a' = a then statement_records stmts else []))"
  using assms
proof (induction stmts arbitrary: db)
  case Nil
  then show ?case by (simp add: statement_records_def)
next
  case (Cons stmt stmts)
  obtain k v n where stmt: "stmt = (k, v, n)" by (cases stmt)
  let ?db1 = "db\<lparr>waste_data := waste_data db
               @ [\<lparr>row_id = next_rowid db, audit_id = a, item_key = k, response = v, notes_col = n\<rparr>],
             sqlite_sequence := next_rowid db\<rparr>"
  have step: "insert_row or_replace a stmt db = Inr ?db1"
    unfolding stmt using Cons.prems by (rule insert_row_ok)
  have "a \<in> audits ?db1" using Cons.prems by simp
  from Cons.IH [OF this] obtain db' where
    run: "run_inserts or_replace a stmts ?db1 = Inr db'" and
    aud: "audits db' = audits ?db1" and
    sel: "\<forall>a'. select_waste_data a' db' =
            select_waste_data a' ?db1 @ (if a' = a then statement_records stmts else [])"
    by blast
  have sel1: "select_waste_data a' ?db1 = select_waste_data a' db @ (if a' = a then [(k, v)] else [])"
    for a'
    by (simp add: select_waste_data_def)
  show ?case
  proof (intro exI [of _ db'] conjI allI)
    show "run_inserts or_replace a (stmt # stmts) db = Inr db'"
      by (simp add: step run)
    show "audits db' = audits db"
      by (simp add: aud)
    show "select_waste_data a' db' =
            select_waste_data a' db @ (if a' = a then statement_records (stmt # stmts) else [])"
      for a'
      by (simp add: sel sel1 stmt statement_records_def)
  qed
qed

section \<open>What a save and an update do to the table\<close>

lemma save_statements_not_empty: "save_statements stringify now data \<noteq> []"
  by (simp add: save_statements_def)

lemma update_statements_not_empty: "update_statements stringify now keys updates \<noteq> []"
  by (simp add: update_statements_def)

lemma select_after_delete:
  "select_waste_data a' (delete_waste_data a db) = (if a' = a then [] else select_waste_data a' db)"
proof (cases "a' = a")
  case True
  then show ?thesis by (simp add: select_waste_data_def delete_waste_data_def)
next
  case False
  then have "filter (\<lambda>r. audit_id r \<noteq> a \<and> audit_id r = a') (waste_data db) =
             filter (\<lambda>r. audit_id r = a') (waste_data db)"
    by (intro filter_cong) auto
  with False show ?thesis by (simp add: select_waste_data_def delete_waste_data_def)
qed

lemma updateWasteAudit_fails:
  "a \<notin> audits db \<Longrightarrow> updateWasteAudit stringify now keys a updates db = (False, db)"
  by (simp add: updateWasteAudit_def transaction_def updateTransaction_def
      run_inserts_fails update_statements_not_empty)

lemma saveWasteAudit_fails:
  "a \<notin> audits db \<Longrightarrow>
   saveWasteAudit stringify now a data db =
     (\<lparr>success = False, wasteAuditId = None,
       validationErrors = Some [''Failed to save waste audit: FOREIGN KEY constraint failed'']\<rparr>, db)"
  by (simp add: saveWasteAudit_def transaction_def saveTransaction_def
      run_inserts_fails save_statements_not_empty delete_waste_data_def)

lemma updateWasteAudit_ok:
  assumes "a \<in> audits db"
  shows "\<exists>db'. updateWasteAudit stringify now keys a updates db = (True, db')
           \<and> audits db' = audits db
           \<and> (\<forall>a'. select_waste_data a' db' =
                 select_waste_data a' db
                 @ (if a' = a then statement_records (update_statements stringify now keys updates)
                    else []))"
proof -
  from run_inserts_ok [OF assms, of True "update_statements stringify now keys updates"]
  obtain db' where
    run: "run_inserts True a (update_statements stringify now keys updates) db = Inr db'" and
    rest: "audits db' = audits db"
      "\<forall>a'. select_waste_data a' db' =
         select_waste_data a' db
         @ (if a' = a then statement_records (update_statements stringify now keys updates) else [])"
    by blast
  have "updateWasteAudit stringify now keys a updates db = (True, db')"
    by (simp add: updateWasteAudit_def transaction_def updateTransaction_def run)
  with rest show ?thesis by blast
qed

lemma saveWasteAudit_ok:
  assumes "a \<in> audits db"
  shows "\<exists>db'. saveWasteAudit stringify now a data db =
             (\<lparr>success = True, wasteAuditId = Some a, validationErrors = None\<rparr>, db')
           \<and> audits db' = audits db
           \<and> (\<forall>a'. select_waste_data a' db' =
                 (if a' = a then statement_records (save_statements stringify now data)
                  else select_waste_data a' db))"
proof -
  have "a \<in> audits (delete_waste_data a db)"
    using assms by (simp add: delete_waste_data_def)
  from run_inserts_ok [OF this, of False "save_statements stringify now data"]
  obtain db' where
    run: "run_inserts False a (save_statements stringify now data) (delete_waste_data a db) = Inr db'" and
    aud: "audits db' = audits (delete_waste_data a db)" and
    sel: "\<forall>a'. select_waste_data a' db' =
         select_waste_data a' (delete_waste_data a db)
         @ (if a' = a then statement_records (save_statements stringify now data) else [])"
    by blast
  have "saveWasteAudit stringify now a data db =
          (\<lparr>success = True, wasteAuditId = Some a, validationErrors = None\<rparr>, db')"
    by (simp add: saveWasteAudit_def transaction_def saveTransaction_def run)
  moreover have "audits db' = audits db"
    by (simp add: aud delete_waste_data_def)
  moreover have "\<forall>a'. select_waste_data a' db' =
                 (if a' = a then statement_records (save_statements stringify now data)
                  else select_waste_data a' db)"
    by (simp add: sel select_after_delete)
  ultimately show ?thesis by blast
qed

text \<open>
  C10. With foreign keys enforced, a save or an update for an audit identifier that has no
  row in \<^verbatim>\<open>audits\<close> fails: the save returns \<^verbatim>\<open>success: false\<close> with one message, the update
  returns \<^verbatim>\<open>false\<close>, and the database is as it was before the call.
\<close>

theorem missing_parent_audit_is_rejected:
  assumes "aid \<notin> audits db"
  shows "saveWasteAudit stringify now aid data db =
           (\<lparr>success = False, wasteAuditId = None,
             validationErrors =
               Some [''Failed to save waste audit: FOREIGN KEY constraint failed'']\<rparr>, db)
         \<and> updateWasteAudit stringify now keys aid data db = (False, db)"
  using assms by (simp add: saveWasteAudit_fails updateWasteAudit_fails)

theorem missing_parent_audit_is_rejected_witness:
  "2 \<notin> audits example_db
   \<and> saveWasteAudit example_stringify ''2025-01-01T00:00:00.000Z'' 2
        (no_data\<lparr>isQuickMode := Some True\<rparr>) example_db =
       (\<lparr>success = False, wasteAuditId = None,
         validationErrors =
           Some [''Failed to save waste audit: FOREIGN KEY constraint failed'']\<rparr>, example_db)
   \<and> updateWasteAudit example_stringify ''2025-01-01T00:00:00.000Z'' [''isQuickMode''] 2
        (no_data\<lparr>isQuickMode := Some True\<rparr>) example_db = (False, example_db)"
proof -
  have h: "2 \<notin> audits example_db"
    by (simp add: example_db_def)
  show ?thesis
    using h missing_parent_audit_is_rejected [OF h] by simp
qed

section \<open>Reconstruction as a whole\<close>

lemma section_selectors:
  "facilityInfrastructure d = section_of d ''facilityInfrastructure''"
  "wasteStreamsAssessment d = section_of d ''wasteStreamsAssessment''"
  "specialWasteManagement d = section_of d ''specialWasteManagement''"
  "organicWasteComposting d = section_of d ''organicWasteComposting''"
  "wastePreventionMeasures d = section_of d ''wastePreventionMeasures''"
  "behavioralTraining d = section_of d ''behavioralTraining''"
  by (simp_all add: section_of_def)

lemma section_names:
  "''facilityInfrastructure'' \<in> set sections" "''wasteStreamsAssessment'' \<in> set sections"
  "''specialWasteManagement'' \<in> set sections" "''organicWasteComposting'' \<in> set sections"
  "''wastePreventionMeasures'' \<in> set sections" "''behavioralTraining'' \<in> set sections"
  by (simp_all add: sections_def)

lemma section_of_start: "section_of (no_data\<lparr>auditId := Some aid\<rparr>) k = None"
  by (simp add: section_of_def no_data_def)

lemma fold_decode_record:
  "fold (decode_record parse) records (no_data\<lparr>auditId := Some aid\<rparr>) = decoded parse aid records"
proof (rule WasteAuditData.equality)
  let ?d = "fold (decode_record parse) records (no_data\<lparr>auditId := Some aid\<rparr>)"
  have sec: "section_of ?d k = latest_section parse k records" if "k \<in> set sections" for k
    using that by (simp add: section_of_fold [OF section_of_start] latest_section_def)
  show "data_id ?d = data_id (decoded parse aid records)"
    by (simp add: fixed_fields_fold decoded_def no_data_def)
  show "auditId ?d = auditId (decoded parse aid records)"
    by (simp add: fixed_fields_fold decoded_def)
  show "facilityInfrastructure ?d = facilityInfrastructure (decoded parse aid records)"
    unfolding section_selectors(1) [of ?d] by (simp add: sec section_names decoded_def)
  show "wasteStreamsAssessment ?d = wasteStreamsAssessment (decoded parse aid records)"
    unfolding section_selectors(2) [of ?d] by (simp add: sec section_names decoded_def)
  show "specialWasteManagement ?d = specialWasteManagement (decoded parse aid records)"
    unfolding section_selectors(3) [of ?d] by (simp add: sec section_names decoded_def)
  show "organicWasteComposting ?d = organicWasteComposting (decoded parse aid records)"
    unfolding section_selectors(4) [of ?d] by (simp add: sec section_names decoded_def)
  show "wastePreventionMeasures ?d = wastePreventionMeasures (decoded parse aid records)"
    unfolding section_selectors(5) [of ?d] by (simp add: sec section_names decoded_def)
  show "behavioralTraining ?d = behavioralTraining (decoded parse aid records)"
    unfolding section_selectors(6) [of ?d] by (simp add: sec section_names decoded_def)
  show "completedSections ?d = completedSections (decoded parse aid records)"
    by (simp add: completedSections_fold decoded_def no_data_def)
  show "isQuickMode ?d = isQuickMode (decoded parse aid records)"
    by (simp add: isQuickMode_fold decoded_def no_data_def)
  show "lastSaved ?d = lastSaved (decoded parse aid records)"
    by (simp add: lastSaved_fold decoded_def no_data_def)
  show "syncStatus ?d = syncStatus (decoded parse aid records)"
    by (simp add: syncStatus_fold decoded_def no_data_def)
  show "WasteAuditData.more ?d = WasteAuditData.more (decoded parse aid records)"
    by simp
qed

lemma getWasteAudit_decoded:
  "getWasteAudit parse aid db =
     (if select_waste_data aid db = [] then None
      else Some (decoded parse aid (select_waste_data aid db)))"
  by (simp add: getWasteAudit_def Let_def fold_decode_record)

section \<open>Repeating an update\<close>

lemma update_statements_split:
  "\<exists>P. \<forall>now. statement_records (update_statements stringify now keys updates) = P @ [(''lastSaved'', now)]"
  by (simp add: update_statements_def statement_records_def)

lemma latest_section_repeat:
  assumes "k \<noteq> ''lastSaved''"
  shows "latest_section parse k (S @ (P @ [(''lastSaved'', t1)]) @ P @ [(''lastSaved'', t2)]) =
         latest_section parse k (S @ P @ [(''lastSaved'', t3)])"
  using assms
  by (simp add: latest_section_def map_filter_append last_option_append_twice List.map_filter_simps)

lemma last_text_repeat:
  assumes "k \<noteq> ''lastSaved''"
  shows "last_option (texts_of k (S @ (P @ [(''lastSaved'', t1)]) @ P @ [(''lastSaved'', t2)])) =
         last_option (texts_of k (S @ P @ [(''lastSaved'', t3)]))"
  using assms by (simp add: last_option_append_twice)

lemma decoded_repeat:
  "(decoded parse aid (S @ (P @ [(''lastSaved'', t1)]) @ P @ [(''lastSaved'', t2)]))\<lparr>lastSaved := None\<rparr> =
   (decoded parse aid (S @ P @ [(''lastSaved'', t3)]))\<lparr>lastSaved := None\<rparr>"
proof -
  let ?X = "S @ (P @ [(''lastSaved'', t1)]) @ P @ [(''lastSaved'', t2)]"
  let ?Y = "S @ P @ [(''lastSaved'', t3)]"
  have sec: "latest_section parse k ?X = latest_section parse k ?Y" if "k \<in> set sections" for k
    using that metadata_keys_not_sections(4) by (intro latest_section_repeat) auto
  have c: "last_option (texts_of ''completedSections'' ?X) = last_option (texts_of ''completedSections'' ?Y)"
    by (rule last_text_repeat) simp
  have q: "last_option (texts_of ''isQuickMode'' ?X) = last_option (texts_of ''isQuickMode'' ?Y)"
    by (rule last_text_repeat) simp
  have y: "last_option (texts_of ''syncStatus'' ?X) = last_option (texts_of ''syncStatus'' ?Y)"
    by (rule last_text_repeat) simp
  show ?thesis
    unfolding decoded_def c q y
    by (simp add: sec section_names del: texts_of_simps append_assoc)
qed

text \<open>
  C4. A partial update is idempotent as far as reconstruction sees: for every partial record
  and audit identifier, the record read back after applying the same update twice is the
  record read back after applying it once, the value of \<^verbatim>\<open>lastSaved\<close> apart.
\<close>

theorem update_twice_reads_as_once:
  "map_option (\<lambda>d. d\<lparr>lastSaved := None\<rparr>)
     (getWasteAudit parse aid
        (snd (updateWasteAudit stringify now2 keys aid updates
           (snd (updateWasteAudit stringify now1 keys aid updates db))))) =
   map_option (\<lambda>d. d\<lparr>lastSaved := None\<rparr>)
     (getWasteAudit parse aid (snd (updateWasteAudit stringify now1 keys aid updates db)))"
proof (cases "aid \<in> audits db")
  case False
  then show ?thesis by (simp add: updateWasteAudit_fails)
next
  case True
  obtain P where P: "\<And>now. statement_records (update_statements stringify now keys updates) = P @ [(''lastSaved'', now)]"
    using update_statements_split by blast
  from updateWasteAudit_ok [OF True, of stringify now1 keys updates] obtain db1 where
    u1: "updateWasteAudit stringify now1 keys aid updates db = (True, db1)" and
    a1: "audits db1 = audits db" and
    s1: "select_waste_data aid db1 = select_waste_data aid db @ P @ [(''lastSaved'', now1)]"
    by (auto simp add: P)
  have "aid \<in> audits db1" using True a1 by simp
  from updateWasteAudit_ok [OF this, of stringify now2 keys updates] obtain db2 where
    u2: "updateWasteAudit stringify now2 keys aid updates db1 = (True, db2)" and
    s2: "select_waste_data aid db2 =
           select_waste_data aid db @ (P @ [(''lastSaved'', now1)]) @ P @ [(''lastSaved'', now2)]"
    by (auto simp add: P s1)
  show ?thesis
    unfolding u1 u2 snd_conv getWasteAudit_decoded s1 s2
    using decoded_repeat [of parse aid "select_waste_data aid db" P now1 now2 now1]
    by simp
qed

theorem update_twice_reads_as_once_witness:
  "map_option (\<lambda>d. d\<lparr>lastSaved := None\<rparr>)
     (getWasteAudit example_parse 1
        (snd (updateWasteAudit example_stringify ''2025-01-01T00:00:02.000Z''
                [''facilityInfrastructure'', ''isQuickMode''] 1
                (no_data\<lparr>facilityInfrastructure := Some ''{}'', isQuickMode := Some True\<rparr>)
           (snd (updateWasteAudit example_stringify ''2025-01-01T00:00:01.000Z''
                   [''facilityInfrastructure'', ''isQuickMode''] 1
                   (no_data\<lparr>facilityInfrastructure := Some ''{}'', isQuickMode := Some True\<rparr>)
                   example_db))))) =
   map_option (\<lambda>d. d\<lparr>lastSaved := None\<rparr>)
     (getWasteAudit example_parse 1
        (snd (updateWasteAudit example_stringify ''2025-01-01T00:00:01.000Z''
                [''facilityInfrastructure'', ''isQuickMode''] 1
                (no_data\<lparr>facilityInfrastructure := Some ''{}'', isQuickMode := Some True\<rparr>)
                example_db)))"
  by (rule update_twice_reads_as_once)

section \<open>Unknown keys, malformed sections and counts, repeated keys\<close>

lemma select_not_empty: "stored_texts aid k db \<noteq> [] \<Longrightarrow> select_waste_data aid db \<noteq> []"
  using texts_of_select [of k aid db] by auto

lemma section_of_decoded:
  "k \<in> set sections \<Longrightarrow> section_of (decoded parse aid records) k = latest_section parse k records"
  by (auto simp add: sections_def section_of_def decoded_def)

lemma map_filter_all_None: "\<forall>x \<in> set xs. f x = None \<Longrightarrow> List.map_filter f xs = []"
  by (induction xs) (simp_all add: List.map_filter_simps)

lemma decode_record_unknown: "k \<notin> set known_keys \<Longrightarrow> decode_record parse (k, t) d = d"
  by (simp add: decode_record_def known_keys_def metadata_keys_def)

lemma texts_of_unknown:
  "k \<notin> set known_keys \<Longrightarrow> k' \<in> set known_keys \<Longrightarrow>
   texts_of k' (rs @ (k, t) # rs') = texts_of k' (rs @ rs')"
  by auto

lemma decoded_unknown:
  assumes "k \<notin> set known_keys"
  shows "decoded parse aid (rs @ (k, t) # rs') = decoded parse aid (rs @ rs')"
proof -
  have known: "set sections \<subseteq> set known_keys" "''completedSections'' \<in> set known_keys"
    "''isQuickMode'' \<in> set known_keys" "''syncStatus'' \<in> set known_keys"
    "''lastSaved'' \<in> set known_keys"
    by (auto simp add: known_keys_def metadata_keys_def)
  have t: "texts_of k' (rs @ (k, t) # rs') = texts_of k' (rs @ rs')" if "k' \<in> set known_keys" for k'
    using assms that by (rule texts_of_unknown)
  have s: "latest_section parse k' (rs @ (k, t) # rs') = latest_section parse k' (rs @ rs')"
    if "k' \<in> set sections" for k'
    using that known(1) by (simp only: latest_section_def t subsetD)
  show ?thesis
    unfolding decoded_def
    by (simp only: s section_names t known)
qed

text \<open>
  C1. After a save and an update of the same audit the table holds two entries for one
  item key: \<^verbatim>\<open>INSERT OR REPLACE\<close> replaces on the primary key only, which is fresh for every
  new row, so the update adds to what the save wrote.
\<close>

theorem update_after_save_duplicates_keys:
  "map item_key
     (filter (\<lambda>r. audit_id r = 1)
        (waste_data
           (snd (updateWasteAudit example_stringify ''2025-01-01T00:00:02.000Z''
                   [''isQuickMode''] 1 (no_data\<lparr>isQuickMode := Some True\<rparr>)
              (snd (saveWasteAudit example_stringify ''2025-01-01T00:00:01.000Z''
                      1 (no_data\<lparr>isQuickMode := Some True\<rparr>) example_db)))))) =
   [''isQuickMode'', ''lastSaved'', ''isQuickMode'', ''lastSaved'']"
  by (simp add: updateWasteAudit_def updateTransaction_def update_statements_def
      saveWasteAudit_def saveTransaction_def save_statements_def transaction_def
      delete_waste_data_def insert_row_def next_rowid_def example_db_def no_data_def
      sections_def section_of_def property_def boolean_toString_def)


lemma update_writes_property:
  assumes "key \<in> set keys" and "property updates key = Some v"
  shows "(key, case v of Obj j \<Rightarrow> stringify j | _ \<Rightarrow> toString v)
           \<in> set (statement_records (update_statements stringify now keys updates))"
proof -
  have "(key, case v of Obj j \<Rightarrow> stringify j | _ \<Rightarrow> toString v, ''Updated: '' @ key)
          \<in> set (update_statements stringify now keys updates)"
    unfolding update_statements_def using assms
    by (cases v) (auto intro!: bexI [of _ key])
  then show ?thesis
    unfolding statement_records_def by force
qed

text \<open>
  C9, as the code has it. An entry whose item key is none of the six section names and four
  metadata names does not change what \<^verbatim>\<open>getWasteAudit\<close> returns for an audit that has
  another entry, and the call still returns a record. An update writes such entries: a
  partial record with the properties \<^verbatim>\<open>id\<close> and \<^verbatim>\<open>auditId\<close> leaves an entry under each
  of these keys.
\<close>

theorem unknown_key_is_ignored:
  assumes "item_key e \<notin> set known_keys"
      and "\<exists>r \<in> set (rows @ rows'). audit_id r = aid"
      and "a \<in> audits db'" and "data_id updates = Some i" and "auditId updates = Some i'"
      and "''id'' \<in> set keys" and "''auditId'' \<in> set keys"
  shows "getWasteAudit parse aid (db\<lparr>waste_data := rows @ e # rows'\<rparr>) =
           getWasteAudit parse aid (db\<lparr>waste_data := rows @ rows'\<rparr>)
         \<and> getWasteAudit parse aid (db\<lparr>waste_data := rows @ e # rows'\<rparr>) \<noteq> None
         \<and> (''id'', int_toString i)
             \<in> set (select_waste_data a (snd (updateWasteAudit stringify now keys a updates db')))
         \<and> (''auditId'', int_toString i')
             \<in> set (select_waste_data a (snd (updateWasteAudit stringify now keys a updates db')))
         \<and> ''id'' \<notin> set known_keys \<and> ''auditId'' \<notin> set known_keys"
proof -
  let ?with = "db\<lparr>waste_data := rows @ e # rows'\<rparr>"
  let ?without = "db\<lparr>waste_data := rows @ rows'\<rparr>"
  let ?rs = "select_waste_data aid (db\<lparr>waste_data := rows\<rparr>)"
  let ?rs' = "select_waste_data aid (db\<lparr>waste_data := rows'\<rparr>)"
  have without: "select_waste_data aid ?without = ?rs @ ?rs'"
    by (simp add: select_waste_data_def)
  have some: "?rs @ ?rs' \<noteq> []"
    using assms(2) by (auto simp add: select_waste_data_def filter_empty_conv)
  have "getWasteAudit parse aid ?with = getWasteAudit parse aid ?without
        \<and> getWasteAudit parse aid ?with \<noteq> None"
  proof (cases "audit_id e = aid")
    case False
    then have "select_waste_data aid ?with = ?rs @ ?rs'"
      by (simp add: select_waste_data_def)
    then show ?thesis
      using some by (simp add: getWasteAudit_decoded without)
  next
    case True
    then have "select_waste_data aid ?with = ?rs @ (item_key e, response e) # ?rs'"
      by (simp add: select_waste_data_def)
    then show ?thesis
      using some by (simp add: getWasteAudit_decoded without decoded_unknown [OF assms(1)])
  qed
  moreover
  from updateWasteAudit_ok [OF assms(3), of stringify now keys updates] obtain db'' where
    u: "updateWasteAudit stringify now keys a updates db' = (True, db'')" and
    s: "select_waste_data a db'' =
          select_waste_data a db' @ statement_records (update_statements stringify now keys updates)"
    by auto
  have "property updates ''id'' = Some (Num (Fin i))"
    using assms(4) by (simp add: property_def)
  from update_writes_property [OF assms(6) this, of stringify now]
  have "(''id'', int_toString i)
          \<in> set (select_waste_data a (snd (updateWasteAudit stringify now keys a updates db')))"
    by (simp add: u s)
  moreover
  have "property updates ''auditId'' = Some (Num (Fin i'))"
    using assms(5) by (simp add: property_def)
  from update_writes_property [OF assms(7) this, of stringify now]
  have "(''auditId'', int_toString i')
          \<in> set (select_waste_data a (snd (updateWasteAudit stringify now keys a updates db')))"
    by (simp add: u s)
  moreover have "''id'' \<notin> set known_keys" "''auditId'' \<notin> set known_keys"
    by (simp_all add: known_keys_def metadata_keys_def sections_def)
  ultimately show ?thesis by blast
qed


theorem unknown_key_is_ignored_witness:
  "item_key \<lparr>row_id = 2, audit_id = 1, item_key = ''id'', response = ''7'',
              notes_col = ''Updated: id''\<rparr> \<notin> set known_keys
   \<and> (\<exists>r \<in> set ([\<lparr>row_id = 1, audit_id = 1, item_key = ''isQuickMode'', response = ''true'',
                       notes_col = ''Quick mode flag''\<rparr>] @ []). audit_id r = 1)
   \<and> 1 \<in> audits example_db
   \<and> data_id (no_data\<lparr>data_id := Some 7, auditId := Some 1\<rparr> :: string StoredAudit) = Some 7
   \<and> auditId (no_data\<lparr>data_id := Some 7, auditId := Some 1\<rparr> :: string StoredAudit) = Some 1
   \<and> ''id'' \<in> set [''id'', ''auditId''] \<and> ''auditId'' \<in> set [''id'', ''auditId'']
   \<and> getWasteAudit example_parse 1
        (example_db\<lparr>waste_data :=
           [\<lparr>row_id = 1, audit_id = 1, item_key = ''isQuickMode'', response = ''true'',
              notes_col = ''Quick mode flag''\<rparr>]
           @ \<lparr>row_id = 2, audit_id = 1, item_key = ''id'', response = ''7'',
               notes_col = ''Updated: id''\<rparr> # []\<rparr>) =
       getWasteAudit example_parse 1
        (example_db\<lparr>waste_data :=
           [\<lparr>row_id = 1, audit_id = 1, item_key = ''isQuickMode'', response = ''true'',
              notes_col = ''Quick mode flag''\<rparr>] @ []\<rparr>)
   \<and> (''id'', int_toString 7)
       \<in> set (select_waste_data 1
            (snd (updateWasteAudit example_stringify ''2025-01-01T00:00:01.000Z''
                    [''id'', ''auditId''] 1 (no_data\<lparr>data_id := Some 7, auditId := Some 1\<rparr>)
                    example_db)))"
proof -
  let ?e = "\<lparr>row_id = 2, audit_id = 1, item_key = ''id'', response = ''7'',
             notes_col = ''Updated: id''\<rparr>"
  let ?rows = "[\<lparr>row_id = 1, audit_id = 1, item_key = ''isQuickMode'', response = ''true'',
                 notes_col = ''Quick mode flag''\<rparr>]"
  let ?u = "no_data\<lparr>data_id := Some 7, auditId := Some 1\<rparr> :: string StoredAudit"
  have h1: "item_key ?e \<notin> set known_keys"
    by (simp add: known_keys_def metadata_keys_def sections_def)
  have h2: "\<exists>r \<in> set (?rows @ []). audit_id r = 1"
    by simp
  have h3: "1 \<in> audits example_db"
    by (simp add: example_db_def)
  have h4: "data_id ?u = Some 7" and h5: "auditId ?u = Some 1"
    by simp_all
  have h6: "''id'' \<in> set [''id'', ''auditId'']" and h7: "''auditId'' \<in> set [''id'', ''auditId'']"
    by simp_all
  from unknown_key_is_ignored [where parse = example_parse and db = example_db
      and stringify = example_stringify and now = "''2025-01-01T00:00:01.000Z''",
      OF h1 h2 h3 h4 h5 h6 h7]
  show ?thesis
    using h1 h2 h3 h4 h5 h6 h7 by blast
qed

text \<open>
  C9 as stated fails on an audit with no entry: there the unknown key alone turns
  not-found into a record.
\<close>

theorem unknown_key_alone_makes_a_record:
  "''id'' \<notin> set known_keys
   \<and> getWasteAudit example_parse 1 example_db = None
   \<and> getWasteAudit example_parse 1
        (example_db\<lparr>waste_data :=
           [\<lparr>row_id = 1, audit_id = 1, item_key = ''id'', response = ''7'',
              notes_col = ''Updated: id''\<rparr>]\<rparr>) =
       Some (no_data\<lparr>auditId := Some 1\<rparr>)"
  by (simp add: known_keys_def metadata_keys_def sections_def getWasteAudit_def
      select_waste_data_def example_db_def decode_record_def)

lemma strip_white_unchanged:
  "leading_white s = None \<Longrightarrow> strip_white s = s"
  by (simp add: strip_white.simps)

lemma strip_white_step:
  "leading_white s = Some w \<Longrightarrow> strip_white s = strip_white (drop (length w) s)"
  by (simp add: strip_white.simps)

lemma strip_white_abc: "strip_white ''abc'' = ''abc''"
  by (rule strip_white_unchanged) (simp add: leading_white_def white_space_def)

lemma parseInt_abc: "parseInt ''abc'' = NaN"
  by (simp add: parseInt_def strip_white_abc radix_digit_def digit_value_def)

text \<open>
  A no-break space (U+00A0, the bytes \<open>C2 A0\<close>) before the digits is white space to
  \<^verbatim>\<open>parseInt\<close>, and a count past \<open>2\<^sup>5\<^sup>3\<close> is read as the nearest double.
\<close>

lemma parseInt_no_break_space: "parseInt [CHR 0xC2, CHR 0xA0, CHR ''5''] = Fin 5"
proof -
  have "strip_white [CHR 0xC2, CHR 0xA0, CHR ''5''] = strip_white ''5''"
    by (simp add: strip_white_step [where w = "[CHR 0xC2, CHR 0xA0]"] leading_white_def
        white_space_def)
  also have "\<dots> = ''5''"
    by (rule strip_white_unchanged) (simp add: leading_white_def white_space_def)
  finally show ?thesis
    by (simp add: parseInt_def radix_digit_def digit_value_def digits_value_def
        nearest_double_def bit_length.simps)
qed

lemma parseInt_past_53_bits: "parseInt ''9007199254740993'' = Fin 9007199254740992"
proof -
  have "strip_white ''9007199254740993'' = ''9007199254740993''"
    by (rule strip_white_unchanged) (simp add: leading_white_def white_space_def)
  then show ?thesis
    by (simp add: parseInt_def radix_digit_def digit_value_def digits_value_def
        nearest_double_def bit_length.simps)
qed

text \<open>
  C5, as the code has it. A section entry whose text is not JSON raises no error and is
  skipped: \<^verbatim>\<open>getWasteAudit\<close> still returns a record, in which the section has the value of the
  last entry under its key that parses. So the section is absent from the record when no
  entry under its key parses (when the key has one entry, that entry). Every other section
  is read in the same way, and every metadatum is the decoding of its last entry.
\<close>

theorem malformed_entry_is_skipped:
  assumes "k \<in> set sections"
      and "t \<in> set (stored_texts aid k db)"
      and "parse t = None"
  shows "\<exists>d. getWasteAudit parse aid db = Some d
           \<and> section_of d k = last_option (List.map_filter parse (stored_texts aid k db))
           \<and> (list_all (\<lambda>t'. parse t' = None) (stored_texts aid k db)
                \<longrightarrow> section_of d k = None)
           \<and> (\<forall>k' \<in> set sections.
                 section_of d k' = last_option (List.map_filter parse (stored_texts aid k' db)))
           \<and> completedSections d =
               map_option parseInt (last_option (stored_texts aid ''completedSections'' db))
           \<and> isQuickMode d =
               map_option (\<lambda>t. t = ''true'') (last_option (stored_texts aid ''isQuickMode'' db))
           \<and> syncStatus d = last_option (stored_texts aid ''syncStatus'' db)
           \<and> lastSaved d = last_option (stored_texts aid ''lastSaved'' db)
           \<and> auditId d = Some aid"
proof -
  let ?d = "decoded parse aid (select_waste_data aid db)"
  have ne: "stored_texts aid k db \<noteq> []"
    using assms(2) by auto
  have get: "getWasteAudit parse aid db = Some ?d"
    using select_not_empty [OF ne] by (simp add: getWasteAudit_decoded)
  have sec: "section_of ?d k' = last_option (List.map_filter parse (stored_texts aid k' db))"
    if "k' \<in> set sections" for k'
    using that by (simp add: section_of_decoded latest_section_def texts_of_select)
  have "section_of ?d k = None"
    if "list_all (\<lambda>t'. parse t' = None) (stored_texts aid k db)"
  proof -
    from that have "\<forall>t' \<in> set (stored_texts aid k db). parse t' = None"
      by (simp only: list_all_iff)
    then show ?thesis
      by (simp add: sec assms(1) map_filter_all_None)
  qed
  moreover have "completedSections ?d =
      map_option parseInt (last_option (stored_texts aid ''completedSections'' db))"
    "isQuickMode ?d =
      map_option (\<lambda>t. t = ''true'') (last_option (stored_texts aid ''isQuickMode'' db))"
    "syncStatus ?d = last_option (stored_texts aid ''syncStatus'' db)"
    "lastSaved ?d = last_option (stored_texts aid ''lastSaved'' db)"
    "auditId ?d = Some aid"
    by (simp_all add: decoded_def texts_of_select)
  ultimately show ?thesis
    using get sec assms(1) by blast
qed

theorem malformed_entry_is_skipped_witness:
  "''facilityInfrastructure'' \<in> set sections
   \<and> ''{oops'' \<in> set (stored_texts 1 ''facilityInfrastructure'' example_malformed_db)
   \<and> example_parse ''{oops'' = None
   \<and> list_all (\<lambda>t. example_parse t = None)
         (stored_texts 1 ''facilityInfrastructure'' example_malformed_db)
   \<and> (\<exists>d. getWasteAudit example_parse 1 example_malformed_db = Some d
         \<and> section_of d ''facilityInfrastructure'' = None
         \<and> section_of d ''wasteStreamsAssessment'' = Some ''[]''
         \<and> completedSections d = Some NaN
         \<and> isQuickMode d = None
         \<and> syncStatus d = None
         \<and> lastSaved d = None
         \<and> auditId d = Some 1)"
proof -
  have h1: "''facilityInfrastructure'' \<in> set sections"
    by (simp add: sections_def)
  have h2: "''{oops'' \<in> set (stored_texts 1 ''facilityInfrastructure'' example_malformed_db)"
    by (simp add: stored_texts_def example_malformed_db_def)
  have h3: "example_parse ''{oops'' = None"
    by (simp add: example_parse_def)
  have h4: "list_all (\<lambda>t. example_parse t = None)
              (stored_texts 1 ''facilityInfrastructure'' example_malformed_db)"
    by (simp add: stored_texts_def example_malformed_db_def example_parse_def)
  have w: "''wasteStreamsAssessment'' \<in> set sections"
    by (simp add: sections_def)
  have texts:
    "last_option (List.map_filter example_parse
       (stored_texts 1 ''wasteStreamsAssessment'' example_malformed_db)) = Some ''[]''"
    "map_option parseInt (last_option (stored_texts 1 ''completedSections'' example_malformed_db))
       = Some NaN"
    "last_option (stored_texts 1 ''isQuickMode'' example_malformed_db) = None"
    "last_option (stored_texts 1 ''syncStatus'' example_malformed_db) = None"
    "last_option (stored_texts 1 ''lastSaved'' example_malformed_db) = None"
    by (simp_all add: stored_texts_def example_malformed_db_def example_parse_def
        List.map_filter_simps parseInt_abc)
  from malformed_entry_is_skipped [where parse = example_parse, OF h1 h2 h3] obtain d where
    d: "getWasteAudit example_parse 1 example_malformed_db = Some d"
       "list_all (\<lambda>t'. example_parse t' = None)
          (stored_texts 1 ''facilityInfrastructure'' example_malformed_db)
        \<longrightarrow> section_of d ''facilityInfrastructure'' = None"
       "\<forall>k' \<in> set sections.
          section_of d k' =
            last_option (List.map_filter example_parse (stored_texts 1 k' example_malformed_db))"
       "completedSections d =
          map_option parseInt (last_option (stored_texts 1 ''completedSections'' example_malformed_db))"
       "isQuickMode d =
          map_option (\<lambda>t. t = ''true'')
            (last_option (stored_texts 1 ''isQuickMode'' example_malformed_db))"
       "syncStatus d = last_option (stored_texts 1 ''syncStatus'' example_malformed_db)"
       "lastSaved d = last_option (stored_texts 1 ''lastSaved'' example_malformed_db)"
       "auditId d = Some 1"
    by blast
  from d(2) h4 have "section_of d ''facilityInfrastructure'' = None"
    by simp
  moreover from d(3) w have "section_of d ''wasteStreamsAssessment'' = Some ''[]''"
    by (simp only: texts)
  moreover have "completedSections d = Some NaN" "isQuickMode d = None" "syncStatus d = None"
      "lastSaved d = None"
    using d(4-7) by (simp_all add: texts)
  ultimately show ?thesis
    using h1 h2 h3 h4 d(1) d(8) by blast
qed

text \<open>
  C5 as stated fails when the key of the malformed entry has an older entry that parses:
  the section is not omitted, the record has the older value.
\<close>

theorem stale_section_survives_malformed_entry:
  "stored_texts 1 ''facilityInfrastructure'' example_stale_db = [''{}'', ''{oops'']
   \<and> example_parse ''{oops'' = None
   \<and> getWasteAudit example_parse 1 example_stale_db =
       Some (no_data\<lparr>auditId := Some 1, facilityInfrastructure := Some ''{}''\<rparr>)"
  by (simp add: stored_texts_def example_stale_db_def example_db_def example_parse_def
      getWasteAudit_def select_waste_data_def decode_record_def sections_def set_section_def)

lemma radix_digit_zero: "radix_digit 10 (CHR ''0'')"
  by (simp add: radix_digit_def digit_value_def)

lemma parseInt_stripped:
  "strip_white t = s1 \<Longrightarrow>
   parseInt t =
     (let neg = (s1 \<noteq> [] \<and> hd s1 = CHR ''-'');
          s2 = (if s1 \<noteq> [] \<and> (hd s1 = CHR ''+'' \<or> hd s1 = CHR ''-'') then tl s1 else s1);
          hex = (take 2 s2 = ''0x'' \<or> take 2 s2 = ''0X'');
          R = (if hex then 16 else 10);
          s3 = (if hex then drop 2 s2 else s2);
          z = takeWhile (radix_digit R) s3
      in if z = [] then NaN
         else (case nearest_double (digits_value R z) of
                 Some n \<Rightarrow> Fin ((if neg then - 1 else 1) * int n)
               | None \<Rightarrow> if neg then NegativeInfinity else Infinity))"
  unfolding parseInt_def by (simp only: Let_def)

lemma parseInt_no_digit:
  assumes "\<not> leading_digit t"
  shows "parseInt t = NaN"
proof (cases "strip_white t")
  case Nil
  show ?thesis by (simp add: parseInt_stripped [OF Nil])
next
  case outer: (Cons c cs)
  show ?thesis
  proof (cases "c = CHR ''+'' \<or> c = CHR ''-''")
    case sign: True
    show ?thesis
    proof (cases cs)
      case Nil
      with sign show ?thesis by (auto simp add: parseInt_stripped [OF outer])
    next
      case (Cons c' cs')
      with assms sign have no: "\<not> radix_digit 10 c'"
        by (auto simp add: leading_digit_def outer)
      then have "c' \<noteq> CHR ''0''"
        using radix_digit_zero by auto
      with no Cons sign show ?thesis
        by (auto simp add: parseInt_stripped [OF outer])
    qed
  next
    case False
    with assms have no: "\<not> radix_digit 10 c"
      by (simp add: leading_digit_def outer)
    then have "c \<noteq> CHR ''0''"
      using radix_digit_zero by auto
    with no False show ?thesis
      by (simp add: parseInt_stripped [OF outer])
  qed
qed

text \<open>
  C3, as the code has it. Decoding the count of completed sections raises no error: when
  the last text stored under \<^verbatim>\<open>completedSections\<close> does not begin, after white space and
  an optional sign, with a decimal digit, \<^verbatim>\<open>getWasteAudit\<close> returns the record all the same,
  and its \<^verbatim>\<open>completedSections\<close> is \<^verbatim>\<open>NaN\<close>.
\<close>

theorem non_numeric_count_reads_as_NaN:
  assumes "stored_texts aid ''completedSections'' db = ts @ [t]"
      and "\<not> leading_digit t"
  shows "\<exists>d. getWasteAudit parse aid db = Some d \<and> completedSections d = Some NaN"
proof -
  have "stored_texts aid ''completedSections'' db \<noteq> []"
    using assms(1) by simp
  then have "getWasteAudit parse aid db = Some (decoded parse aid (select_waste_data aid db))"
    using select_not_empty by (simp add: getWasteAudit_decoded)
  moreover have "completedSections (decoded parse aid (select_waste_data aid db)) = Some NaN"
    by (simp add: decoded_def texts_of_select assms(1) parseInt_no_digit [OF assms(2)])
  ultimately show ?thesis by blast
qed

theorem non_numeric_count_reads_as_NaN_witness:
  "stored_texts 1 ''completedSections'' example_malformed_db = [] @ [''abc'']
   \<and> \<not> leading_digit ''abc''
   \<and> (\<exists>d. getWasteAudit example_parse 1 example_malformed_db = Some d
         \<and> completedSections d = Some NaN)"
proof -
  have h1: "stored_texts 1 ''completedSections'' example_malformed_db = [] @ [''abc'']"
    by (simp add: stored_texts_def example_malformed_db_def)
  have h2: "\<not> leading_digit ''abc''"
    by (simp add: leading_digit_def strip_white_abc radix_digit_def digit_value_def)
  from non_numeric_count_reads_as_NaN [OF h1 h2] show ?thesis
    using h1 h2 by blast
qed

text \<open>
  C3 as stated fails: a stored count of \<^verbatim>\<open>abc\<close> gives no error but a record whose
  \<^verbatim>\<open>completedSections\<close> is \<^verbatim>\<open>NaN\<close>.
\<close>

theorem non_numeric_count_raises_nothing:
  "getWasteAudit example_parse 1
     (example_db\<lparr>waste_data :=
        [\<lparr>row_id = 1, audit_id = 1, item_key = ''completedSections'', response = ''abc'',
           notes_col = ''Number of completed sections''\<rparr>]\<rparr>) =
   Some (no_data\<lparr>auditId := Some 1, completedSections := Some NaN\<rparr>)"
  by (simp add: getWasteAudit_def select_waste_data_def example_db_def decode_record_def
      sections_def parseInt_abc)

section \<open>Saving and reading back\<close>

lemma statement_records_simps [simp]:
  "statement_records [] = []"
  "statement_records (a @ b) = statement_records a @ statement_records b"
  "statement_records ((k, v, n) # a) = (k, v) # statement_records a"
  by (simp_all add: statement_records_def)

lemma texts_of_optional:
  "texts_of k (statement_records (case x of Some v \<Rightarrow> [(k', f v, n v)] | None \<Rightarrow> [])) =
     (if k' = k then (case x of Some v \<Rightarrow> [f v] | None \<Rightarrow> []) else [])"
  by (cases x) simp_all

lemma texts_of_truthy:
  "texts_of k (statement_records
      (case x of Some s \<Rightarrow> if s \<noteq> [] then [(k', s, n)] else [] | None \<Rightarrow> [])) =
     (if k' = k then (case x of Some s \<Rightarrow> if s \<noteq> [] then [s] else [] | None \<Rightarrow> []) else [])"
  by (cases x) simp_all

lemma save_statements_unfolded:
  "save_statements stringify now data =
     (case facilityInfrastructure data of
        Some v \<Rightarrow> [(''facilityInfrastructure'', stringify v,
                    ''Waste audit section: '' @ ''facilityInfrastructure'')]
      | None \<Rightarrow> [])
     @ (case wasteStreamsAssessment data of
        Some v \<Rightarrow> [(''wasteStreamsAssessment'', stringify v,
                    ''Waste audit section: '' @ ''wasteStreamsAssessment'')]
      | None \<Rightarrow> [])
     @ (case specialWasteManagement data of
        Some v \<Rightarrow> [(''specialWasteManagement'', stringify v,
                    ''Waste audit section: '' @ ''specialWasteManagement'')]
      | None \<Rightarrow> [])
     @ (case organicWasteComposting data of
        Some v \<Rightarrow> [(''organicWasteComposting'', stringify v,
                    ''Waste audit section: '' @ ''organicWasteComposting'')]
      | None \<Rightarrow> [])
     @ (case wastePreventionMeasures data of
        Some v \<Rightarrow> [(''wastePreventionMeasures'', stringify v,
                    ''Waste audit section: '' @ ''wastePreventionMeasures'')]
      | None \<Rightarrow> [])
     @ (case behavioralTraining data of
        Some v \<Rightarrow> [(''behavioralTraining'', stringify v,
                    ''Waste audit section: '' @ ''behavioralTraining'')]
      | None \<Rightarrow> [])
     @ (case completedSections data of
          Some n \<Rightarrow> [(''completedSections'', number_toString n, ''Number of completed sections'')]
        | None \<Rightarrow> [])
     @ (case isQuickMode data of
          Some b \<Rightarrow> [(''isQuickMode'', boolean_toString b, ''Quick mode flag'')]
        | None \<Rightarrow> [])
     @ (case syncStatus data of
          Some s \<Rightarrow> if s \<noteq> [] then [(''syncStatus'', s, ''Synchronization status'')] else []
        | None \<Rightarrow> [])
     @ [(''lastSaved'', now, ''Last saved timestamp'')]"
  by (simp add: save_statements_def sections_def section_of_def)

lemma texts_of_save_completedSections:
  "texts_of ''completedSections'' (statement_records (save_statements stringify now data)) =
     (case completedSections data of Some n \<Rightarrow> [number_toString n] | None \<Rightarrow> [])"
  unfolding save_statements_unfolded statement_records_simps(2) texts_of_simps(2)
    texts_of_optional texts_of_truthy
  by simp


lemma texts_of_save_isQuickMode:
  "texts_of ''isQuickMode'' (statement_records (save_statements stringify now data)) =
     (case isQuickMode data of Some b \<Rightarrow> [boolean_toString b] | None \<Rightarrow> [])"
  unfolding save_statements_unfolded statement_records_simps(2) texts_of_simps(2)
    texts_of_optional texts_of_truthy
  by simp

lemma texts_of_save_syncStatus:
  "texts_of ''syncStatus'' (statement_records (save_statements stringify now data)) =
     (case syncStatus data of Some s \<Rightarrow> if s \<noteq> [] then [s] else [] | None \<Rightarrow> [])"
  unfolding save_statements_unfolded statement_records_simps(2) texts_of_simps(2)
    texts_of_optional texts_of_truthy
  by simp

lemma texts_of_save_lastSaved:
  "texts_of ''lastSaved'' (statement_records (save_statements stringify now data)) = [now]"
  unfolding save_statements_unfolded statement_records_simps(2) texts_of_simps(2)
    texts_of_optional texts_of_truthy
  by simp

lemma texts_of_save_section:
  "texts_of ''facilityInfrastructure'' (statement_records (save_statements stringify now data)) =
     (case facilityInfrastructure data of Some v \<Rightarrow> [stringify v] | None \<Rightarrow> [])"
  "texts_of ''wasteStreamsAssessment'' (statement_records (save_statements stringify now data)) =
     (case wasteStreamsAssessment data of Some v \<Rightarrow> [stringify v] | None \<Rightarrow> [])"
  "texts_of ''specialWasteManagement'' (statement_records (save_statements stringify now data)) =
     (case specialWasteManagement data of Some v \<Rightarrow> [stringify v] | None \<Rightarrow> [])"
  "texts_of ''organicWasteComposting'' (statement_records (save_statements stringify now data)) =
     (case organicWasteComposting data of Some v \<Rightarrow> [stringify v] | None \<Rightarrow> [])"
  "texts_of ''wastePreventionMeasures'' (statement_records (save_statements stringify now data)) =
     (case wastePreventionMeasures data of Some v \<Rightarrow> [stringify v] | None \<Rightarrow> [])"
  "texts_of ''behavioralTraining'' (statement_records (save_statements stringify now data)) =
     (case behavioralTraining data of Some v \<Rightarrow> [stringify v] | None \<Rightarrow> [])"
  unfolding save_statements_unfolded statement_records_simps(2) texts_of_simps(2)
    texts_of_optional texts_of_truthy
  by simp_all

lemma strip_white_count:
  "c \<in> set ''0123456'' \<Longrightarrow> strip_white [c] = [c]"
  by (rule strip_white_unchanged) (auto simp add: leading_white_def white_space_def)

lemma parseInt_count:
  assumes "0 \<le> n" and "n \<le> 6"
  shows "parseInt (int_toString n) = Fin n"
proof -
  from assms have "n = 0 \<or> n = 1 \<or> n = 2 \<or> n = 3 \<or> n = 4 \<or> n = 5 \<or> n = 6"
    by arith
  then show ?thesis
    by (elim disjE)
      (simp_all add: int_toString_def nat_toString.simps parseInt_def strip_white_count
        digit_char_def radix_digit_def digit_value_def digits_value_def nearest_double_def
        bit_length.simps)
qed

lemma latest_section_saved:
  assumes "case x of None \<Rightarrow> True | Some v \<Rightarrow> parse (stringify v) = Some v"
  shows "last_option (List.map_filter parse (case x of Some v \<Rightarrow> [stringify v] | None \<Rightarrow> [])) = x"
  using assms by (cases x) (simp_all add: List.map_filter_simps)

lemma valid_record_sections:
  assumes "valid_record stringify parse r" and "k \<in> set sections"
  shows "case section_of r k of None \<Rightarrow> True | Some v \<Rightarrow> parse (stringify v) = Some v"
  using assms by (simp add: valid_record_def list_all_iff)

text \<open>
  C2. After a save that succeeds, reading the audit back gives exactly what was saved: the
  sections and the metadata of a valid partial record with their values, the audit
  identifier, the time of the save as \<^verbatim>\<open>lastSaved\<close>, and nothing else.
\<close>

theorem save_then_get_round_trip:
  assumes "success (fst (saveWasteAudit stringify now aid r db))"
      and "valid_record stringify parse r"
  shows "getWasteAudit parse aid (snd (saveWasteAudit stringify now aid r db)) =
           Some (r\<lparr>data_id := None, auditId := Some aid, lastSaved := Some now\<rparr>)"
proof -
  have parent: "aid \<in> audits db"
  proof (rule ccontr)
    assume "aid \<notin> audits db"
    then have "\<not> success (fst (saveWasteAudit stringify now aid r db))"
      by (simp add: saveWasteAudit_fails)
    with assms(1) show False by contradiction
  qed
  from saveWasteAudit_ok [OF parent, of stringify now r] obtain db' where
    saved: "saveWasteAudit stringify now aid r db =
              (\<lparr>success = True, wasteAuditId = Some aid, validationErrors = None\<rparr>, db')" and
    sel: "select_waste_data aid db' = statement_records (save_statements stringify now r)"
    by auto
  let ?rs = "statement_records (save_statements stringify now r)"
  have "?rs \<noteq> []"
    by (simp add: save_statements_def)
  then have get: "getWasteAudit parse aid db' = Some (decoded parse aid ?rs)"
    by (simp add: getWasteAudit_decoded sel)
  have sec: "case section_of r k of None \<Rightarrow> True | Some v \<Rightarrow> parse (stringify v) = Some v"
    if "k \<in> set sections" for k
    using assms(2) that by (rule valid_record_sections)
  have "decoded parse aid ?rs = r\<lparr>data_id := None, auditId := Some aid, lastSaved := Some now\<rparr>"
  proof (rule WasteAuditData.equality)
    show "facilityInfrastructure (decoded parse aid ?rs) =
            facilityInfrastructure (r\<lparr>data_id := None, auditId := Some aid, lastSaved := Some now\<rparr>)"
      using sec [OF section_names(1)]
      by (simp add: decoded_def latest_section_def texts_of_save_section latest_section_saved
          section_selectors [symmetric])
    show "wasteStreamsAssessment (decoded parse aid ?rs) =
            wasteStreamsAssessment (r\<lparr>data_id := None, auditId := Some aid, lastSaved := Some now\<rparr>)"
      using sec [OF section_names(2)]
      by (simp add: decoded_def latest_section_def texts_of_save_section latest_section_saved
          section_selectors [symmetric])
    show "specialWasteManagement (decoded parse aid ?rs) =
            specialWasteManagement (r\<lparr>data_id := None, auditId := Some aid, lastSaved := Some now\<rparr>)"
      using sec [OF section_names(3)]
      by (simp add: decoded_def latest_section_def texts_of_save_section latest_section_saved
          section_selectors [symmetric])
    show "organicWasteComposting (decoded parse aid ?rs) =
            organicWasteComposting (r\<lparr>data_id := None, auditId := Some aid, lastSaved := Some now\<rparr>)"
      using sec [OF section_names(4)]
      by (simp add: decoded_def latest_section_def texts_of_save_section latest_section_saved
          section_selectors [symmetric])
    show "wastePreventionMeasures (decoded parse aid ?rs) =
            wastePreventionMeasures (r\<lparr>data_id := None, auditId := Some aid, lastSaved := Some now\<rparr>)"
      using sec [OF section_names(5)]
      by (simp add: decoded_def latest_section_def texts_of_save_section latest_section_saved
          section_selectors [symmetric])
    show "behavioralTraining (decoded parse aid ?rs) =
            behavioralTraining (r\<lparr>data_id := None, auditId := Some aid, lastSaved := Some now\<rparr>)"
      using sec [OF section_names(6)]
      by (simp add: decoded_def latest_section_def texts_of_save_section latest_section_saved
          section_selectors [symmetric])
    show "completedSections (decoded parse aid ?rs) =
            completedSections (r\<lparr>data_id := None, auditId := Some aid, lastSaved := Some now\<rparr>)"
      using assms(2)
      by (auto simp add: decoded_def texts_of_save_completedSections valid_record_def
          parseInt_count split: option.splits jsnumber.splits)
    show "isQuickMode (decoded parse aid ?rs) =
            isQuickMode (r\<lparr>data_id := None, auditId := Some aid, lastSaved := Some now\<rparr>)"
      by (auto simp add: decoded_def texts_of_save_isQuickMode boolean_toString_def
          split: option.splits)
    show "syncStatus (decoded parse aid ?rs) =
            syncStatus (r\<lparr>data_id := None, auditId := Some aid, lastSaved := Some now\<rparr>)"
      using assms(2)
      by (auto simp add: decoded_def texts_of_save_syncStatus valid_record_def
          split: option.splits)
    show "lastSaved (decoded parse aid ?rs) =
            lastSaved (r\<lparr>data_id := None, auditId := Some aid, lastSaved := Some now\<rparr>)"
      by (simp add: decoded_def texts_of_save_lastSaved)
  qed (simp_all add: decoded_def)
  then show ?thesis
    by (simp add: saved get)
qed


theorem save_then_get_round_trip_witness:
  "success (fst (saveWasteAudit example_stringify ''2025-01-01T00:00:01.000Z'' 1
                   example_record example_db))
   \<and> valid_record example_stringify example_parse example_record
   \<and> getWasteAudit example_parse 1
        (snd (saveWasteAudit example_stringify ''2025-01-01T00:00:01.000Z'' 1
                example_record example_db)) =
       Some (example_record\<lparr>data_id := None, auditId := Some 1,
               lastSaved := Some ''2025-01-01T00:00:01.000Z''\<rparr>)"
proof -
  have h1: "success (fst (saveWasteAudit example_stringify ''2025-01-01T00:00:01.000Z'' 1
                            example_record example_db))"
    by (simp add: saveWasteAudit_def saveTransaction_def transaction_def save_statements_def
        delete_waste_data_def insert_row_def next_rowid_def Let_def example_db_def
        example_record_def no_data_def sections_def section_of_def)
  have h2: "valid_record example_stringify example_parse example_record"
    by (simp add: valid_record_def example_record_def no_data_def sections_def section_of_def
        example_stringify_def example_parse_def)
  from save_then_get_round_trip [OF h1 h2] show ?thesis
    using h1 h2 by blast
qed

text \<open>
  The keys a save leaves for its audit are distinct: this path keeps the invariant of one
  entry per item key.
\<close>

lemma keys_optional:
  "map fst (statement_records (case x of Some v \<Rightarrow> [(k, f v, n v)] | None \<Rightarrow> [])) =
     (if x = None then [] else [k])"
  by (cases x) simp_all

lemma keys_truthy:
  "map fst (statement_records
      (case x of Some s \<Rightarrow> if s \<noteq> [] then [(k, s, n)] else [] | None \<Rightarrow> [])) =
     (if x = None \<or> x = Some [] then [] else [k])"
  by (cases x) simp_all

lemma save_leaves_distinct_keys:
  assumes "aid \<in> audits db"
  shows "distinct (map fst (select_waste_data aid (snd (saveWasteAudit stringify now aid data db))))"
proof -
  from saveWasteAudit_ok [OF assms, of stringify now data] obtain db' where
    "saveWasteAudit stringify now aid data db =
       (\<lparr>success = True, wasteAuditId = Some aid, validationErrors = None\<rparr>, db')"
    "select_waste_data aid db' = statement_records (save_statements stringify now data)"
    by auto
  moreover have "distinct (map fst (statement_records (save_statements stringify now data)))"
    unfolding save_statements_unfolded statement_records_simps(2) map_append
      keys_optional keys_truthy
    by simp
  ultimately show ?thesis by simp
qed

section \<open>Numbers of the scoring engine, evaluated\<close>

lemma exponent_up_numeral [simp]:
  "exponent_up (numeral k) a = (if a < 2 then 0 else 1 + exponent_up (pred_numeral k) (a / 2))"
  by (simp add: numeral_eq_Suc)

lemma exponent_down_numeral [simp]:
  "exponent_down (numeral k) a =
     (if 1 \<le> a then 0 else exponent_down (pred_numeral k) (a * 2) - 1)"
  by (simp add: numeral_eq_Suc)

lemmas double_eval = to_double_def significand_def exponent_def pow2_def round_half_even_def

text \<open>
  The literal \<^verbatim>\<open>0.15\<close> is not fifteen hundredths, and a sum of doubles is not the sum of the
  reals: \<^verbatim>\<open>0.1 + 0.2\<close> is \<^verbatim>\<open>0.30000000000000004\<close>.
\<close>

lemma literal_15_hundredths:
  "to_double (15 / 100) = Finite (5404319552844595 / 36028797018963968)"
  by (simp add: double_eval)

lemma sum_of_tenths:
  "dadd (to_double (1 / 10)) (to_double (2 / 10)) = Finite (1351079888211149 / 4503599627370496)"
  "to_double (3 / 10) = Finite (5404319552844595 / 18014398509481984)"
  by (simp_all add: double_eval)

section \<open>The metrics\<close>

lemma costs_of_simps:
  "costs_of [] = []"
  "costs_of (s # ss) =
     (case annualCostEuros s of
        Some c \<Rightarrow> if truthy c then c # costs_of ss else costs_of ss
      | None \<Rightarrow> costs_of ss)"
  by (simp_all add: costs_of_def List.map_filter_simps split: option.splits)

lemma fold_metrics_step:
  "fold metrics_step ss (a, b, c, d) =
     (foldl dadd a (costs_of ss), foldl dadd b (map volume_of ss),
      foldl dadd c (map volume_of
        (filter (\<lambda>s. wasteStream s = ''dry_recyclables'' \<or> wasteStream s = ''organic'') ss)),
      d + length (filter (\<lambda>s. greater_than (contaminationLevel s) (Finite 3)) ss))"
proof (induction ss arbitrary: a b c d)
  case Nil
  show ?case by (simp add: costs_of_simps)
next
  case (Cons s ss)
  have step: "metrics_step s (a, b, c, d) =
      (foldl dadd a (costs_of [s]), dadd b (volume_of s),
       (if wasteStream s = ''dry_recyclables'' \<or> wasteStream s = ''organic''
        then dadd c (volume_of s) else c),
       d + (if greater_than (contaminationLevel s) (Finite 3) then 1 else 0))"
    by (simp add: metrics_step_def costs_of_simps volume_of_def split: option.splits)
  show ?case
    unfolding fold_Cons comp_def step Cons.IH
    by (simp add: costs_of_simps split: option.splits)
qed

lemma streams_fold:
  "(case wasteStreamsAssessment data of
      Some w \<Rightarrow> (case assessments w of
                   Some streams \<Rightarrow> fold metrics_step streams z
                 | None \<Rightarrow> z)
    | None \<Rightarrow> z) =
   fold metrics_step (streams_of data) z"
  by (simp add: streams_of_def split: option.splits)

lemma contaminated_count:
  "contaminated data =
     (0 < length (filter (\<lambda>s. greater_than (contaminationLevel s) (Finite 3))
                    (streams_of data)))"
  by (simp add: contaminated_def greater_than_def list_ex_iff filter_empty_conv)

lemma calculateWasteMetrics_formulas:
  "calculateWasteMetrics data userCount = metrics_formulas data userCount"
  by (simp only: calculateWasteMetrics_def streams_fold, simp only: fold_metrics_step)
    (simp add: metrics_formulas_def spec_metrics_def total_cost_def total_volume_def
      recyclable_volume_def dsum_def contaminated_count round2_def Let_def)

lemma streams_of_example [simp]: "streams_of (example_streams ss) = ss"
  by (simp add: streams_of_def example_streams_def)

text \<open>
  The metrics round as the code does. Of one stream of 29 litres among 100 users the weekly
  waste per user is \<^verbatim>\<open>0.14\<close>: the quotient \<^verbatim>\<open>14.5 / 100\<close> is a double below \<^verbatim>\<open>0.145\<close>. The
  recycling rate of 23 litres in 160 is \<^verbatim>\<open>14.37\<close>, and the savings on a cost of 3 euros
  are \<^verbatim>\<open>0.44999999999999996\<close>.
\<close>

lemma weekly_waste_of_29_litres:
  "weeklyWastePerUser
     (calculateWasteMetrics (example_streams [example_stream ''general'' 29 1 0]) (Finite 100)) =
   to_double (14 / 100)"
  by (simp add: calculateWasteMetrics_formulas metrics_formulas_def spec_metrics_def
      total_volume_def dsum_def volume_of_def number_or_def example_stream_def round2_def
      double_eval)

lemma recycling_rate_of_23_in_160:
  "recyclingRateEstimate
     (calculateWasteMetrics
        (example_streams [example_stream ''organic'' 23 1 0, example_stream ''general'' 137 1 0])
        (Finite 100)) =
   to_double (1437 / 100)"
  by (simp add: calculateWasteMetrics_formulas metrics_formulas_def spec_metrics_def
      total_volume_def recyclable_volume_def dsum_def volume_of_def number_or_def
      example_stream_def round2_def double_eval)

lemma savings_on_3_euros:
  "potentialSavingsFromContaminationReduction
     (calculateWasteMetrics (example_streams [example_stream ''general'' 10 4 3]) (Finite 100)) =
   Finite (2026619832316723 / 4503599627370496)"
  "to_double (45 / 100) = Finite (8106479329266893 / 18014398509481984)"
  by (simp_all add: calculateWasteMetrics_formulas metrics_formulas_def spec_metrics_def
      total_cost_def costs_of_simps contaminated_def dsum_def example_stream_def double_eval)

text \<open>
  C7, as the code has it. For every partial record and user count the metrics are the
  formulas of the specification, computed in the arithmetic of the code (each sum taken in
  the order of the streams, each operation rounding to the nearest double): the annual cost
  is the sum of the costs that are given and not zero; the recycling rate is 0 unless the
  total weekly volume is greater than 0; the weekly waste per user is 0 unless the user
  count is greater than 0. The record with one stream of dry recyclables (500 L a week,
  contamination 2, 1000 euros a year) and 50 users gives a recycling rate of 100, no
  potential savings and 5 of weekly waste per user.
\<close>

theorem metrics_are_the_formulas:
  "calculateWasteMetrics data userCount = metrics_formulas data userCount
   \<and> recyclingRateEstimate
       (calculateWasteMetrics
          (example_streams [example_stream ''dry_recyclables'' 500 2 1000]) (Finite 50)) =
       Finite 100
   \<and> potentialSavingsFromContaminationReduction
       (calculateWasteMetrics
          (example_streams [example_stream ''dry_recyclables'' 500 2 1000]) (Finite 50)) =
       Finite 0
   \<and> weeklyWastePerUser
       (calculateWasteMetrics
          (example_streams [example_stream ''dry_recyclables'' 500 2 1000]) (Finite 50)) =
       Finite 5"
proof -
  have "recyclingRateEstimate
          (metrics_formulas (example_streams [example_stream ''dry_recyclables'' 500 2 1000])
             (Finite 50)) = Finite 100"
    by (simp add: metrics_formulas_def spec_metrics_def total_volume_def recyclable_volume_def
        dsum_def volume_of_def number_or_def example_stream_def round2_def double_eval)
  moreover have "potentialSavingsFromContaminationReduction
          (metrics_formulas (example_streams [example_stream ''dry_recyclables'' 500 2 1000])
             (Finite 50)) = Finite 0"
    by (simp add: metrics_formulas_def spec_metrics_def contaminated_def example_stream_def)
  moreover have "weeklyWastePerUser
          (metrics_formulas (example_streams [example_stream ''dry_recyclables'' 500 2 1000])
             (Finite 50)) = Finite 5"
    by (simp add: metrics_formulas_def spec_metrics_def total_volume_def dsum_def volume_of_def
        number_or_def example_stream_def round2_def double_eval)
  ultimately show ?thesis
    by (simp only: calculateWasteMetrics_formulas simp_thms)
qed

theorem metrics_are_the_formulas_witness:
  "calculateWasteMetrics (example_streams [example_stream ''organic'' 120 4 300,
                                            example_stream ''general'' 360 1 900]) (Finite 40) =
     metrics_formulas (example_streams [example_stream ''organic'' 120 4 300,
                                        example_stream ''general'' 360 1 900]) (Finite 40)"
  using metrics_are_the_formulas
    [of "example_streams [example_stream ''organic'' 120 4 300,
                          example_stream ''general'' 360 1 900]" "Finite 40"]
  by blast

text \<open>
  C7 as stated fails on a negative total volume: with one stream of dry recyclables of
  \<open>-10\<close> litres the code gives a recycling rate of 0, the formula of the specification 100.
\<close>

theorem negative_volume_recycling_rate:
  "recyclingRateEstimate
     (calculateWasteMetrics
        (example_streams [example_stream ''dry_recyclables'' (- 10) 2 1000]) (Finite 50)) =
     Finite 0
   \<and> recyclingRateEstimate
       (spec_metrics
          (example_streams [example_stream ''dry_recyclables'' (- 10) 2 1000]) (Finite 50)) =
       Finite 100"
proof -
  have "recyclingRateEstimate
     (metrics_formulas
        (example_streams [example_stream ''dry_recyclables'' (- 10) 2 1000]) (Finite 50)) =
     Finite 0"
    by (simp add: metrics_formulas_def spec_metrics_def total_volume_def recyclable_volume_def
        dsum_def volume_of_def number_or_def example_stream_def round2_def double_eval)
  moreover have "recyclingRateEstimate
       (spec_metrics
          (example_streams [example_stream ''dry_recyclables'' (- 10) 2 1000]) (Finite 50)) =
       Finite 100"
    by (simp add: spec_metrics_def total_volume_def recyclable_volume_def
        dsum_def volume_of_def number_or_def example_stream_def round2_def double_eval)
  ultimately show ?thesis
    by (simp only: calculateWasteMetrics_formulas simp_thms)
qed

section \<open>The quick wins\<close>

lemma push_if_chain:
  fixes q1 q2 q3 q4 q5 :: "nat \<Rightarrow> QuickWin" and c1 c2 c3 c4 c5 :: bool
  assumes p: "\<And>n. priority (q1 n) = n" "\<And>n. priority (q2 n) = n" "\<And>n. priority (q3 n) = n"
    "\<And>n. priority (q4 n) = n" "\<And>n. priority (q5 n) = n"
  and i: "\<And>n. quickwin_id (q1 n) = i1" "\<And>n. quickwin_id (q2 n) = i2"
    "\<And>n. quickwin_id (q3 n) = i3" "\<And>n. quickwin_id (q4 n) = i4" "\<And>n. quickwin_id (q5 n) = i5"
  defines "qs \<equiv> take 5 (sort_key priority
      (fst (push_if c5 q5 (push_if c4 q4 (push_if c3 q3 (push_if c2 q2 (push_if c1 q1 ([], 1))))))))"
  shows "map quickwin_id qs = map snd (filter fst [(c1, i1), (c2, i2), (c3, i3), (c4, i4), (c5, i5)])
         \<and> map priority qs = [1..<Suc (length qs)]
         \<and> length qs \<le> 5"
  unfolding qs_def
  by (cases c1; cases c2; cases c3; cases c4; cases c5)
    (simp_all add: push_if_def p i upt_rec)


lemma contaminated_streams:
  "(case wasteStreamsAssessment data of
      Some w \<Rightarrow> (case assessments w of Some streams \<Rightarrow> filter P streams | None \<Rightarrow> [])
    | None \<Rightarrow> []) = filter P (streams_of data)"
  by (simp add: streams_of_def split: option.splits)

lemma generateQuickWins_checks:
  "map quickwin_id (generateQuickWins data) =
     map snd (filter fst
       [(\<not> list_ex (\<lambda>bin. binType bin = ''dry_recyclables'') (bins_of data),
         ''add-recycling-bins''),
        (0 < length (filter (\<lambda>bin. signagePresent bin \<and> dless (signageQuality bin) (Finite 3))
                       (bins_of data)),
         ''improve-signage''),
        (0 < length (filter (\<lambda>stream. greater_than (contaminationLevel stream) (Finite 3))
                       (streams_of data)),
         ''contamination-training''),
        (case behavioralTraining data of Some t \<Rightarrow> \<not> wasteChampionAppointed t | None \<Rightarrow> True,
         ''appoint-champion''),
        (case organicWasteComposting data of
           Some organic \<Rightarrow> kitchenPresent organic \<and> compostingSystem organic = ''none''
         | None \<Rightarrow> False,
         ''start-composting'')])
   \<and> map priority (generateQuickWins data) = [1..<Suc (length (generateQuickWins data))]
   \<and> length (generateQuickWins data) \<le> 5"
  unfolding generateQuickWins_def Let_def contaminated_streams bins_of_def [symmetric]
  by (rule push_if_chain) simp_all

lemma positive_length_filter: "(0 < length (filter P xs)) = list_ex P xs"
  by (simp add: list_ex_iff filter_empty_conv)

lemma sorted_upt_nat: "sorted [i..<j]"
  by simp

text \<open>
  C8. For every partial record the quick wins are one recommendation for each of the five
  checks that holds, in the order the checks are declared, with priorities 1, 2, ... in that
  order: the list is ascending in priority and has at most five entries. A record with a bin
  for dry recyclables and no waste champion appointed has no \<^verbatim>\<open>add-recycling-bins\<close> and has
  \<^verbatim>\<open>appoint-champion\<close>.
\<close>

theorem quick_wins_follow_the_checks:
  "map quickwin_id (generateQuickWins data) = map snd (filter fst (quick_win_checks data))
   \<and> map priority (generateQuickWins data) = [1..<Suc (length (generateQuickWins data))]
   \<and> sorted (map priority (generateQuickWins data))
   \<and> length (generateQuickWins data) \<le> 5
   \<and> ((\<exists>b \<in> set (bins_of data). binType b = ''dry_recyclables'')
        \<and> (case behavioralTraining data of Some t \<Rightarrow> \<not> wasteChampionAppointed t | None \<Rightarrow> True)
       \<longrightarrow> ''add-recycling-bins'' \<notin> set (map quickwin_id (generateQuickWins data))
           \<and> ''appoint-champion'' \<in> set (map quickwin_id (generateQuickWins data)))"
proof -
  have ids: "map quickwin_id (generateQuickWins data) = map snd (filter fst (quick_win_checks data))"
    using generateQuickWins_checks [of data]
    by (simp only: quick_win_checks_def positive_length_filter contaminated_def greater_than_def)
  have prio: "map priority (generateQuickWins data) = [1..<Suc (length (generateQuickWins data))]"
    and len: "length (generateQuickWins data) \<le> 5"
    using generateQuickWins_checks [of data] by blast+
  have srt: "sorted (map priority (generateQuickWins data))"
    unfolding prio by (rule sorted_upt_nat)
  have scenario:
    "''add-recycling-bins'' \<notin> set (map quickwin_id (generateQuickWins data))
     \<and> ''appoint-champion'' \<in> set (map quickwin_id (generateQuickWins data))"
    if "\<exists>b \<in> set (bins_of data). binType b = ''dry_recyclables''"
      and "case behavioralTraining data of Some t \<Rightarrow> \<not> wasteChampionAppointed t | None \<Rightarrow> True"
    using that unfolding ids quick_win_checks_def
    by (simp add: list_ex_iff)
  from ids prio srt len scenario show ?thesis
    by blast
qed


theorem quick_wins_follow_the_checks_witness:
  "(\<exists>b \<in> set (bins_of example_bins_record). binType b = ''dry_recyclables'')
   \<and> (case behavioralTraining example_bins_record of
         Some t \<Rightarrow> \<not> wasteChampionAppointed t
       | None \<Rightarrow> True)
   \<and> ''add-recycling-bins'' \<notin> set (map quickwin_id (generateQuickWins example_bins_record))
   \<and> ''appoint-champion'' \<in> set (map quickwin_id (generateQuickWins example_bins_record))
   \<and> map priority (generateQuickWins example_bins_record) =
       [1..<Suc (length (generateQuickWins example_bins_record))]"
proof -
  have h1: "\<exists>b \<in> set (bins_of example_bins_record). binType b = ''dry_recyclables''"
    by (simp add: bins_of_def example_bins_record_def)
  have h2: "case behavioralTraining example_bins_record of
              Some t \<Rightarrow> \<not> wasteChampionAppointed t
            | None \<Rightarrow> True"
    by (simp add: example_bins_record_def)
  from quick_wins_follow_the_checks [of example_bins_record] h1 h2 show ?thesis
    by blast
qed

section \<open>The overall score\<close>

text \<open>
  With nothing to score the result is 0, and the score rounds as the code does: the record
  on the scale whose points are 57.5 of 100 scores 57, the quotient \<^verbatim>\<open>57.5 / 100 * 100\<close>
  being a double below \<^verbatim>\<open>57.5\<close>.
\<close>

lemma overall_score_of_nothing:
  assumes "bins_of data = []" and "streams_of data = []"
      and "wastePreventionMeasures data = None" and "behavioralTraining data = None"
  shows "calculateOverallScore data = Finite 0"
proof -
  have bins: "(case facilityInfrastructure data of
                 Some f \<Rightarrow> (case binInventory f of Some bins \<Rightarrow> length bins | None \<Rightarrow> 0)
               | None \<Rightarrow> 0) = length (bins_of data)"
    "(case facilityInfrastructure data of
        Some f \<Rightarrow>
          (case binInventory f of
             Some bins \<Rightarrow> length (filter (\<lambda>bin. binType bin = ''dry_recyclables'') bins)
           | None \<Rightarrow> 0)
      | None \<Rightarrow> 0) = length (filter (\<lambda>bin. binType bin = ''dry_recyclables'') (bins_of data))"
    by (simp_all add: bins_of_def split: option.splits)
  show ?thesis
    unfolding calculateOverallScore_def bins streams_of_def [symmetric]
    by (simp add: assms calculatePreventionScore_def of_count_def double_eval)
qed

lemma overall_score_of_57_5_points:
  "calculateOverallScore example_scored_record = Finite 57"
  by (simp add: calculateOverallScore_def example_scored_record_def no_data_def example_stream_def
      calculatePreventionScore_def measures_def measure_of_def number_or_def dsub_def
      of_count_def double_eval)

text \<open>
  C6 fails in the code. The contamination part of the score is
  \<^verbatim>\<open>((5 - avgContamination) / 4) * 25\<close> with no bound on the levels, and the route that
  computes the score does not check them: for a record with one stream of contamination
  level 9 and nothing else the score is \<open>-33\<close>, below 0.
\<close>

theorem off_scale_score_is_negative:
  "calculateOverallScore (example_streams [example_stream ''general'' 100 9 0]) = Finite (- 33)
   \<and> dless (calculateOverallScore (example_streams [example_stream ''general'' 100 9 0]))
        (Finite 0)"
proof -
  have "calculateOverallScore (example_streams [example_stream ''general'' 100 9 0]) =
          Finite (- 33)"
    by (simp add: calculateOverallScore_def example_streams_def no_data_def example_stream_def
        calculatePreventionScore_def number_or_def dsub_def of_count_def double_eval)
  then show ?thesis
    by simp
qed

end
